theory Spec2Isabelle
  imports Complex_Main "HOL-Library.Char_ord"
begin

section \<open>JavaScript strings and the character classes of the regular expressions\<close>

text \<open>
  A JavaScript string is modelled as a \<^typ>\<open>string\<close>: a list of code units, here limited to
  the range U+0000..U+00FF that \<^typ>\<open>char\<close> offers. The character classes below are the ones
  the regular expressions of \<^verbatim>\<open>config-extractor.js\<close> use, cut down to that range.
\<close>

definition is_space :: "char \<Rightarrow> bool" where
  \<comment> \<open>\<^verbatim>\<open>\s\<close>: tab, LF, VT, FF, CR, space, NBSP\<close>
  "is_space c = (c \<in> set [CHR 0x09, CHR 0x0A, CHR 0x0B, CHR 0x0C, CHR 0x0D, CHR 0x20, CHR 0xA0])"

definition is_line_terminator :: "char \<Rightarrow> bool" where
  \<comment> \<open>what \<^verbatim>\<open>.\<close> refuses and \<^verbatim>\<open>$\<close> (flag m) stops at\<close>
  "is_line_terminator c = (c = CHR 0x0A \<or> c = CHR 0x0D)"

definition is_digit :: "char \<Rightarrow> bool" where
  "is_digit c = (CHR ''0'' \<le> c \<and> c \<le> CHR ''9'')"

definition is_upper :: "char \<Rightarrow> bool" where
  "is_upper c = (CHR ''A'' \<le> c \<and> c \<le> CHR ''Z'')"

definition is_lower :: "char \<Rightarrow> bool" where
  "is_lower c = (CHR ''a'' \<le> c \<and> c \<le> CHR ''z'')"

definition is_alnum :: "char \<Rightarrow> bool" where
  \<comment> \<open>\<^verbatim>\<open>[a-zA-Z0-9]\<close>\<close>
  "is_alnum c = (is_lower c \<or> is_upper c \<or> is_digit c)"

definition is_quote :: "char \<Rightarrow> bool" where
  \<comment> \<open>\<^verbatim>\<open>['"]\<close>\<close>
  "is_quote c = (c = CHR 0x27 \<or> c = CHR 0x22)"

fun strip_prefix :: "string \<Rightarrow> string \<Rightarrow> string option" where
  "strip_prefix [] s = Some s"
| "strip_prefix (p # ps) [] = None"
| "strip_prefix (p # ps) (c # cs) = (if p = c then strip_prefix ps cs else None)"

definition spaces1 :: "string \<Rightarrow> string option" where
  \<comment> \<open>\<^verbatim>\<open>\s+\<close>, greedy; what follows it in every pattern is not a space, so the longest run
      is the only one that can match\<close>
  "spaces1 s = (case s of [] \<Rightarrow> None
                | c # cs \<Rightarrow> if is_space c then Some (dropWhile is_space cs) else None)"

definition spaces0 :: "string \<Rightarrow> string" where
  \<comment> \<open>\<^verbatim>\<open>\s*\<close>\<close>
  "spaces0 s = dropWhile is_space s"

section \<open>Export style detection (\<^verbatim>\<open>detectExportStyle\<close>)\<close>

datatype export_style = DefaultExport | NamedExport string

definition default_export_at :: "string \<Rightarrow> bool" where
  \<comment> \<open>\<^verbatim>\<open>/export\s+default/\<close> matched at the head of the text\<close>
  "default_export_at s =
     (case strip_prefix ''export'' s of None \<Rightarrow> False
      | Some r \<Rightarrow> (case spaces1 r of None \<Rightarrow> False
                   | Some r' \<Rightarrow> strip_prefix ''default'' r' \<noteq> None))"

fun test_export_default :: "string \<Rightarrow> bool" where
  \<comment> \<open>\<^verbatim>\<open>/export\s+default/.test(content)\<close>: a match at some position\<close>
  "test_export_default [] = False"
| "test_export_default (c # cs) = (default_export_at (c # cs) \<or> test_export_default cs)"

definition const_or_function :: "string \<Rightarrow> string option" where
  \<comment> \<open>\<^verbatim>\<open>(?:const|function)\<close>\<close>
  "const_or_function s =
     (case strip_prefix ''const'' s of Some r \<Rightarrow> Some r | None \<Rightarrow> strip_prefix ''function'' s)"

definition capital_name :: "string \<Rightarrow> (string \<times> string) option" where
  \<comment> \<open>\<^verbatim>\<open>([A-Z][a-zA-Z0-9]*)\<close>, greedy and last in its pattern: the name and the rest\<close>
  "capital_name s =
     (case s of [] \<Rightarrow> None
      | c # cs \<Rightarrow> if is_upper c then Some (c # takeWhile is_alnum cs, dropWhile is_alnum cs)
                  else None)"

definition named_export_at :: "string \<Rightarrow> (string \<times> string) option" where
  \<comment> \<open>\<^verbatim>\<open>/export\s+(?:const|function)\s+([A-Z][a-zA-Z0-9]*)/\<close> at the head of the text:
      the captured name and the text after the match\<close>
  "named_export_at s =
     Option.bind (strip_prefix ''export'' s) (\<lambda>r1.
     Option.bind (spaces1 r1) (\<lambda>r2.
     Option.bind (const_or_function r2) (\<lambda>r3.
     Option.bind (spaces1 r3) capital_name)))"

lemma strip_prefix_Some: "strip_prefix p s = Some r \<longleftrightarrow> s = p @ r"
  by (induction p s rule: strip_prefix.induct) auto

lemma spaces1_length: "spaces1 s = Some r \<Longrightarrow> length r < length s"
  by (auto simp: spaces1_def split: list.splits if_splits
           intro: le_imp_less_Suc length_dropWhile_le)

lemma const_or_function_length: "const_or_function s = Some r \<Longrightarrow> length r \<le> length s"
  by (auto simp: const_or_function_def strip_prefix_Some split: option.splits)

lemma capital_name_length: "capital_name s = Some (n, r) \<Longrightarrow> length r \<le> length s"
  by (auto simp: capital_name_def split: list.splits if_splits
           intro: le_SucI length_dropWhile_le)

lemma named_export_at_length:
  assumes "named_export_at s = Some (n, r)"
  shows "length r < length s"
proof -
  from assms obtain r1 where a: "strip_prefix ''export'' s = Some r1"
    and a': "Option.bind (spaces1 r1) (\<lambda>r2. Option.bind (const_or_function r2)
               (\<lambda>r3. Option.bind (spaces1 r3) capital_name)) = Some (n, r)"
    unfolding named_export_at_def by (cases "strip_prefix ''export'' s") auto
  from a' obtain r2 where b: "spaces1 r1 = Some r2"
    and b': "Option.bind (const_or_function r2)
               (\<lambda>r3. Option.bind (spaces1 r3) capital_name) = Some (n, r)"
    by (cases "spaces1 r1") auto
  from b' obtain r3 where c: "const_or_function r2 = Some r3"
    and c': "Option.bind (spaces1 r3) capital_name = Some (n, r)"
    by (cases "const_or_function r2") auto
  from c' obtain r4 where d: "spaces1 r3 = Some r4" and e: "capital_name r4 = Some (n, r)"
    by (cases "spaces1 r3") auto
  from e have "length r \<le> length r4" by (rule capital_name_length)
  moreover from d have "length r4 < length r3" by (rule spaces1_length)
  moreover from c have "length r3 \<le> length r2" by (rule const_or_function_length)
  moreover from b have "length r2 < length r1" by (rule spaces1_length)
  moreover from a have "length r1 \<le> length s" by (auto simp: strip_prefix_Some)
  ultimately show ?thesis by linarith
qed

function matchAll_named :: "string \<Rightarrow> string list" where
  \<comment> \<open>\<^verbatim>\<open>content.matchAll(/.../g)\<close>: the captured names in source order; after a match the
      search goes on where the match ended\<close>
  "matchAll_named [] = []"
| "matchAll_named (c # cs) =
     (case named_export_at (c # cs) of
        Some (n, rest) \<Rightarrow> n # matchAll_named rest
      | None \<Rightarrow> matchAll_named cs)"
  by pat_completeness auto
termination
  by (relation "measure length") (auto dest: named_export_at_length)

fun first_component :: "string list \<Rightarrow> string option" where
  \<comment> \<open>the \<^verbatim>\<open>for (const match of namedExportMatches)\<close> loop with its early return\<close>
  "first_component [] = None"
| "first_component (n # ns) =
     (if n \<noteq> ''compositionConfig'' then Some n else first_component ns)"

definition detectExportStyle :: "string \<Rightarrow> string \<Rightarrow> export_style" where
  \<comment> \<open>\<open>filename\<close> is \<^verbatim>\<open>path.basename(filePath, '.tsx')\<close>, \<open>content\<close> the text of the file\<close>
  "detectExportStyle filename content =
     (if test_export_default content then DefaultExport
      else (case first_component (matchAll_named content) of
              Some n \<Rightarrow> NamedExport n
            | None \<Rightarrow> NamedExport filename))"


section \<open>JavaScript values\<close>

text \<open>
  A number is an IEEE 754 double: a rational, or one of the three special values. Every
  operation of the code that produces a number from an exact result (\<^verbatim>\<open>*\<close>, \<^verbatim>\<open>parseInt\<close>,
  \<^verbatim>\<open>parseFloat\<close>) rounds that result to the nearest double, a tie going to the even
  significand (\<open>to_double\<close> below). The one thing left out is the sign of zero: \<open>-0\<close>
  is \<open>0\<close> here, and the code treats them alike (both are falsy and both print as \<^verbatim>\<open>0\<close>).
\<close>

datatype jsnum = Fin rat | PosInf | NegInf | NaN

datatype jsval =
    JUndefined
  | JNull
  | JBool bool
  | JNum jsnum
  | JStr string
  | JArr "jsval list"
  | JObj "(string \<times> jsval) list"
  | JFunction

fun truthy :: "jsval \<Rightarrow> bool" where
  \<comment> \<open>ToBoolean\<close>
  "truthy JUndefined = False"
| "truthy JNull = False"
| "truthy (JBool b) = b"
| "truthy (JNum n) = (n \<noteq> NaN \<and> n \<noteq> Fin 0)"
| "truthy (JStr s) = (s \<noteq> [])"
| "truthy (JArr xs) = True"
| "truthy (JObj fs) = True"
| "truthy JFunction = True"

definition js_or :: "jsval \<Rightarrow> jsval \<Rightarrow> jsval" where
  \<comment> \<open>\<^verbatim>\<open>a || b\<close>\<close>
  "js_or a b = (if truthy a then a else b)"

fun get_prop :: "jsval \<Rightarrow> string \<Rightarrow> string + jsval" where
  \<comment> \<open>\<^verbatim>\<open>v.key\<close> for the keys the extractor reads, none of which a prototype defines: a
      TypeError on \<^verbatim>\<open>null\<close> and \<^verbatim>\<open>undefined\<close>, the own property of an object, and
      \<^verbatim>\<open>undefined\<close> otherwise\<close>
  "get_prop JUndefined key = Inl ''TypeError''"
| "get_prop JNull key = Inl ''TypeError''"
| "get_prop (JObj fs) key = Inr (case map_of fs key of None \<Rightarrow> JUndefined | Some v \<Rightarrow> v)"
| "get_prop v key = Inr JUndefined"

definition sum_bind :: "'e + 'a \<Rightarrow> ('a \<Rightarrow> 'e + 'b) \<Rightarrow> 'e + 'b" where
  "sum_bind m f = (case m of Inl e \<Rightarrow> Inl e | Inr x \<Rightarrow> f x)"

subsection \<open>Rounding to a double\<close>

function ilog2 :: "int \<Rightarrow> int" where
  \<comment> \<open>for \<open>n \<ge> 1\<close>, the \<open>k\<close> with \<open>2\<^sup>k \<le> n < 2\<^sup>k\<^sup>+\<^sup>1\<close>\<close>
  "ilog2 n = (if n < 2 then 0 else 1 + ilog2 (n div 2))"
  by pat_completeness auto

termination
  by (relation "measure nat") auto

declare ilog2.simps [simp del]

definition exponent_of :: "rat \<Rightarrow> int" where
  \<comment> \<open>for \<open>q > 0\<close>, the binary exponent: the \<open>e\<close> with \<open>2\<^sup>e \<le> q < 2\<^sup>e\<^sup>+\<^sup>1\<close>\<close>
  "exponent_of q = (if 1 \<le> q then ilog2 \<lfloor>q\<rfloor> else - (ilog2 (\<lceil>1 / q\<rceil> - 1) + 1))"

definition round_half_even :: "rat \<Rightarrow> int" where
  \<comment> \<open>the nearest integer, a tie going to the even one\<close>
  "round_half_even x =
     (let n = \<lfloor>x\<rfloor>; r = x - of_int n
      in if r < 1 / 2 then n else if 1 / 2 < r then n + 1 else if even n then n else n + 1)"

definition ulp :: "rat \<Rightarrow> rat" where
  \<comment> \<open>the distance between neighbouring doubles at \<open>q > 0\<close>: 53 significant bits, and
      \<open>2\<^sup>-\<^sup>1\<^sup>0\<^sup>7\<^sup>4\<close> below the least normal number \<open>2\<^sup>-\<^sup>1\<^sup>0\<^sup>2\<^sup>2\<close>\<close>
  "ulp q = 2 powi (max (exponent_of q) (- 1022) - 52)"

definition to_double_pos :: "rat \<Rightarrow> rat option" where
  \<comment> \<open>the double nearest to \<open>q > 0\<close>: the significand is rounded to 53 bits; \<open>None\<close> is
      \<^verbatim>\<open>Infinity\<close>, for what is \<open>2\<^sup>1\<^sup>0\<^sup>2\<^sup>4\<close> or more, or is rounded up to it\<close>
  "to_double_pos q =
     (let n = round_half_even (q / ulp q) in
      if 1023 < exponent_of q \<or> (exponent_of q = 1023 \<and> n = 2 ^ 53) then None
      else Some (of_int n * ulp q))"

definition to_double :: "rat \<Rightarrow> jsnum" where
  \<comment> \<open>round to nearest, ties to even\<close>
  "to_double q =
     (if q = 0 then Fin 0
      else if 0 < q then (case to_double_pos q of None \<Rightarrow> PosInf | Some m \<Rightarrow> Fin m)
      else (case to_double_pos (- q) of None \<Rightarrow> NegInf | Some m \<Rightarrow> Fin (- m)))"

subsection \<open>\<^verbatim>\<open>parseInt\<close> and \<^verbatim>\<open>parseFloat\<close>\<close>

definition digit_value :: "char \<Rightarrow> nat" where
  "digit_value c =
     (if is_digit c then of_char c - 48
      else if CHR ''a'' \<le> c \<and> c \<le> CHR ''f'' then of_char c - 87
      else of_char c - 55)"

definition is_hex_digit :: "char \<Rightarrow> bool" where
  "is_hex_digit c =
     (is_digit c \<or> (CHR ''a'' \<le> c \<and> c \<le> CHR ''f'') \<or> (CHR ''A'' \<le> c \<and> c \<le> CHR ''F''))"

definition digits_value :: "nat \<Rightarrow> string \<Rightarrow> nat" where
  \<comment> \<open>the number a digit string denotes in the given radix\<close>
  "digits_value radix ds = foldl (\<lambda>a c. radix * a + digit_value c) 0 ds"

definition split_sign :: "string \<Rightarrow> rat \<times> string" where
  \<comment> \<open>an optional \<^verbatim>\<open>+\<close> or \<^verbatim>\<open>-\<close>\<close>
  "split_sign s =
     (case s of [] \<Rightarrow> (1, [])
      | c # r \<Rightarrow> if c = CHR ''-'' then (- 1, r) else if c = CHR ''+'' then (1, r) else (1, s))"

definition parse_int :: "string \<Rightarrow> jsnum" where
  \<comment> \<open>\<^verbatim>\<open>parseInt(s)\<close> with no radix: leading white space, a sign, \<^verbatim>\<open>0x\<close> for radix 16,
      then the longest run of digits; the result is the double nearest to the integer they
      denote\<close>
  "parse_int s =
     (let (sign, s2) = split_sign (dropWhile is_space s);
          hex = (take 2 s2 = ''0x'' \<or> take 2 s2 = ''0X'');
          s3 = (if hex then drop 2 s2 else s2);
          ds = takeWhile (if hex then is_hex_digit else is_digit) s3
      in if ds = [] then NaN
         else to_double (sign * of_nat (digits_value (if hex then 16 else 10) ds)))"

definition exponent_part :: "string \<Rightarrow> int" where
  \<comment> \<open>\<^verbatim>\<open>[eE][+-]?\d+\<close> at the head of the text: its value, 0 when it is not there\<close>
  "exponent_part s =
     (case s of [] \<Rightarrow> 0
      | c # r \<Rightarrow>
          if c = CHR ''e'' \<or> c = CHR ''E'' then
            (let (sign, r2) = split_sign r; ds = takeWhile is_digit r2
             in if ds = [] then 0
                else (if sign < 0 then - int (digits_value 10 ds) else int (digits_value 10 ds)))
          else 0)"

definition parse_float :: "string \<Rightarrow> jsnum" where
  \<comment> \<open>\<^verbatim>\<open>parseFloat(s)\<close>: leading white space, then the longest prefix that is a
      decimal literal (sign, \<^verbatim>\<open>Infinity\<close> or digits with an optional fraction and exponent);
      the result is the double nearest to the number the literal denotes\<close>
  "parse_float s =
     (let (sign, s2) = split_sign (dropWhile is_space s) in
      if take 8 s2 = ''Infinity'' then (if sign < 0 then NegInf else PosInf)
      else
        (let ip = takeWhile is_digit s2;
             r1 = dropWhile is_digit s2;
             dot = (r1 \<noteq> [] \<and> hd r1 = CHR ''.'');
             fp = (if dot then takeWhile is_digit (tl r1) else []);
             r2 = (if dot then dropWhile is_digit (tl r1) else r1)
         in if ip = [] \<and> fp = [] then NaN
            else to_double (sign * (of_nat (digits_value 10 ip)
                                    + of_nat (digits_value 10 fp) / 10 ^ length fp)
                                 * 10 powi exponent_part r2)))"

definition js_string_of_match :: "string option \<Rightarrow> string" where
  \<comment> \<open>ToString of what \<^verbatim>\<open>extractValue\<close> returns: the match, or \<^verbatim>\<open>null\<close>\<close>
  "js_string_of_match m = (case m of None \<Rightarrow> ''null'' | Some s \<Rightarrow> s)"

definition parseInt :: "string option \<Rightarrow> jsnum" where
  "parseInt m = parse_int (js_string_of_match m)"

definition parseFloat :: "string option \<Rightarrow> jsnum" where
  "parseFloat m = parse_float (js_string_of_match m)"

section \<open>Composition config extraction (\<^verbatim>\<open>extractCompositionConfig\<close>)\<close>

record config =
  id' :: jsval
  durationInSeconds :: jsval
  fps :: jsval
  width :: jsval
  height :: jsval
  defaultProps :: jsval

definition DEFAULTS_fps :: jsval where "DEFAULTS_fps = JNum (Fin 30)"
definition DEFAULTS_width :: jsval where "DEFAULTS_width = JNum (Fin 1080)"
definition DEFAULTS_height :: jsval where "DEFAULTS_height = JNum (Fin 1920)"
definition DEFAULTS_durationInSeconds :: jsval where "DEFAULTS_durationInSeconds = JNum (Fin 5)"

fun first_match :: "(string \<Rightarrow> 'a option) \<Rightarrow> string \<Rightarrow> 'a option" where
  \<comment> \<open>\<^verbatim>\<open>str.match(re)\<close> without flag g: the match at the leftmost position that has one\<close>
  "first_match m [] = m []"
| "first_match m (c # cs) =
     (case m (c # cs) of Some v \<Rightarrow> Some v | None \<Rightarrow> first_match m cs)"

fun until_close :: "string \<Rightarrow> string option" where
  \<comment> \<open>\<^verbatim>\<open>[\s\S]*?\});\<close>: the text up to and with the first \<^verbatim>\<open>}\<close> that a \<^verbatim>\<open>;\<close> follows\<close>
  "until_close (c # d # s) =
     (if c = CHR ''}'' \<and> d = CHR '';'' then Some [c]
      else map_option ((#) c) (until_close (d # s)))"
| "until_close s = None"

definition config_match_at :: "string \<Rightarrow> string option" where
  \<comment> \<open>\<^verbatim>\<open>/export\s+const\s+compositionConfig\s*=\s*(\{[\s\S]*?\});/\<close> at the head of the
      text: capture group 1\<close>
  "config_match_at s =
     Option.bind (strip_prefix ''export'' s) (\<lambda>r1.
     Option.bind (spaces1 r1) (\<lambda>r2.
     Option.bind (strip_prefix ''const'' r2) (\<lambda>r3.
     Option.bind (spaces1 r3) (\<lambda>r4.
     Option.bind (strip_prefix ''compositionConfig'' r4) (\<lambda>r5.
     Option.bind (strip_prefix ''='' (spaces0 r5)) (\<lambda>r6.
       case spaces0 r6 of [] \<Rightarrow> None
       | c # r7 \<Rightarrow> if c = CHR ''{'' then map_option ((#) c) (until_close r7) else None))))))"

definition configMatch :: "string \<Rightarrow> string option" where
  "configMatch content = first_match config_match_at content"

function strip_line_comments :: "string \<Rightarrow> string" where
  \<comment> \<open>\<^verbatim>\<open>.replace(/\/\/.*$/gm, '')\<close>: from every \<^verbatim>\<open>//\<close> to the end of its line\<close>
  "strip_line_comments (c # d # s) =
     (if c = CHR ''/'' \<and> d = CHR ''/''
      then strip_line_comments (dropWhile (\<lambda>x. \<not> is_line_terminator x) s)
      else c # strip_line_comments (d # s))"
| "strip_line_comments [c] = [c]"
| "strip_line_comments [] = []"
  by pat_completeness auto
termination
  by (relation "measure length") (auto intro: le_imp_less_Suc le_SucI length_dropWhile_le)

fun after_comment_end :: "string \<Rightarrow> string option" where
  \<comment> \<open>the text after the first \<^verbatim>\<open>*/\<close>\<close>
  "after_comment_end (c # d # s) =
     (if c = CHR ''*'' \<and> d = CHR ''/'' then Some s else after_comment_end (d # s))"
| "after_comment_end s = None"

lemma after_comment_end_length: "after_comment_end s = Some r \<Longrightarrow> length r < length s"
  by (induction s rule: after_comment_end.induct) (auto split: if_splits)

function strip_block_comments :: "string \<Rightarrow> string" where
  \<comment> \<open>\<^verbatim>\<open>.replace(/\/\*[\s\S]*?\*\//g, '')\<close>: every \<^verbatim>\<open>/*\<close> up to the first \<^verbatim>\<open>*/\<close> after it\<close>
  "strip_block_comments (c # d # s) =
     (if c = CHR ''/'' \<and> d = CHR ''*'' then
        (case after_comment_end s of
           Some rest \<Rightarrow> strip_block_comments rest
         | None \<Rightarrow> c # strip_block_comments (d # s))
      else c # strip_block_comments (d # s))"
| "strip_block_comments [c] = [c]"
| "strip_block_comments [] = []"
  by pat_completeness auto
termination
  by (relation "measure length") (auto dest: after_comment_end_length)

fun strip_trailing_commas :: "string \<Rightarrow> string" where
  \<comment> \<open>\<^verbatim>\<open>.replace(/,(\s*[}\]])/g, '$1')\<close>: a comma goes when white space and a closing
      brace or bracket follow it; the rest of the match is put back and holds no comma, so
      the scan may go on right after the comma\<close>
  "strip_trailing_commas [] = []"
| "strip_trailing_commas (c # s) =
     (if c = CHR '','' \<and> (case spaces0 s of [] \<Rightarrow> False | d # _ \<Rightarrow> d = CHR ''}'' \<or> d = CHR '']'')
      then strip_trailing_commas s
      else c # strip_trailing_commas s)"

definition eval_source :: "string \<Rightarrow> string" where
  \<comment> \<open>the text handed to \<^verbatim>\<open>eval\<close>: the cleaned literal in parentheses\<close>
  "eval_source lit =
     ''('' @ strip_trailing_commas (strip_block_comments (strip_line_comments lit)) @ '')''"

subsection \<open>The fallback: \<^verbatim>\<open>extractValue\<close>\<close>

definition string_value_at :: "string \<Rightarrow> string \<Rightarrow> string option" where
  \<comment> \<open>\<^verbatim>\<open>key\s*:\s*['"]([^'"]+)['"]\<close> at the head of the text\<close>
  "string_value_at key s =
     Option.bind (strip_prefix key s) (\<lambda>r1.
     Option.bind (strip_prefix '':'' (spaces0 r1)) (\<lambda>r2.
       case spaces0 r2 of [] \<Rightarrow> None
       | q # r3 \<Rightarrow>
           if is_quote q \<and> takeWhile (\<lambda>c. \<not> is_quote c) r3 \<noteq> []
              \<and> dropWhile (\<lambda>c. \<not> is_quote c) r3 \<noteq> []
           then Some (takeWhile (\<lambda>c. \<not> is_quote c) r3) else None))"

definition number_value_at :: "string \<Rightarrow> string \<Rightarrow> string option" where
  \<comment> \<open>\<^verbatim>\<open>key\s*:\s*(\d+\.?\d*)\<close> at the head of the text\<close>
  "number_value_at key s =
     Option.bind (strip_prefix key s) (\<lambda>r1.
     Option.bind (strip_prefix '':'' (spaces0 r1)) (\<lambda>r2.
       let r3 = spaces0 r2; ds = takeWhile is_digit r3; r4 = dropWhile is_digit r3
       in if ds = [] then None
          else Some (ds @ (case r4 of [] \<Rightarrow> []
                           | c # r5 \<Rightarrow> if c = CHR ''.'' then c # takeWhile is_digit r5 else []))))"

definition extractValue :: "string \<Rightarrow> string \<Rightarrow> string option" where
  \<comment> \<open>the string pattern first, then the numeric one; \<open>None\<close> is \<^verbatim>\<open>null\<close>\<close>
  "extractValue configStr key =
     (case first_match (string_value_at key) configStr of
        Some v \<Rightarrow> Some v
      | None \<Rightarrow> first_match (number_value_at key) configStr)"

definition js_of_match :: "string option \<Rightarrow> jsval" where
  "js_of_match m = (case m of None \<Rightarrow> JNull | Some s \<Rightarrow> JStr s)"

definition fallback_config :: "string \<Rightarrow> string \<Rightarrow> config" where
  \<comment> \<open>the \<^verbatim>\<open>catch (evalError)\<close> block\<close>
  "fallback_config filename configStr =
     \<lparr> id' = js_or (js_of_match (extractValue configStr ''id'')) (JStr filename),
       durationInSeconds =
         js_or (JNum (parseFloat (extractValue configStr ''durationInSeconds'')))
               DEFAULTS_durationInSeconds,
       fps = js_or (JNum (parseInt (extractValue configStr ''fps''))) DEFAULTS_fps,
       width = js_or (JNum (parseInt (extractValue configStr ''width''))) DEFAULTS_width,
       height = js_or (JNum (parseInt (extractValue configStr ''height''))) DEFAULTS_height,
       defaultProps = JObj [] \<rparr>"

definition backfill :: "string \<Rightarrow> jsval \<Rightarrow> string + config" where
  \<comment> \<open>the object the \<^verbatim>\<open>try\<close> block returns; reading a property of \<^verbatim>\<open>null\<close> or
      \<^verbatim>\<open>undefined\<close> throws\<close>
  "backfill filename cfg =
     sum_bind (get_prop cfg ''id'') (\<lambda>i.
     sum_bind (get_prop cfg ''durationInSeconds'') (\<lambda>d.
     sum_bind (get_prop cfg ''fps'') (\<lambda>f.
     sum_bind (get_prop cfg ''width'') (\<lambda>w.
     sum_bind (get_prop cfg ''height'') (\<lambda>h.
     sum_bind (get_prop cfg ''defaultProps'') (\<lambda>p.
       Inr \<lparr> id' = js_or i (JStr filename),
             durationInSeconds = js_or d DEFAULTS_durationInSeconds,
             fps = js_or f DEFAULTS_fps,
             width = js_or w DEFAULTS_width,
             height = js_or h DEFAULTS_height,
             defaultProps = js_or p (JObj []) \<rparr>))))))"

definition config_from_literal :: "(string \<Rightarrow> string + jsval) \<Rightarrow> string \<Rightarrow> string \<Rightarrow> config" where
  \<comment> \<open>the \<^verbatim>\<open>try\<close>/\<^verbatim>\<open>catch\<close> of \<^verbatim>\<open>extractCompositionConfig\<close> on the captured literal;
      \<open>js_eval\<close> is JavaScript's \<^verbatim>\<open>eval\<close>: \<open>Inl\<close> when it throws, \<open>Inr\<close> its value\<close>
  "config_from_literal js_eval filename lit =
     (case sum_bind (js_eval (eval_source lit)) (backfill filename) of
        Inr c \<Rightarrow> c
      | Inl evalError \<Rightarrow> fallback_config filename lit)"

section \<open>Paths (\<^verbatim>\<open>path.join\<close>, \<^verbatim>\<open>path.basename\<close> on POSIX)\<close>

fun split_on :: "char \<Rightarrow> string \<Rightarrow> string list" where
  "split_on sep [] = [[]]"
| "split_on sep (c # cs) =
     (if c = sep then [] # split_on sep cs
      else (case split_on sep cs of [] \<Rightarrow> [[c]] | x # xs \<Rightarrow> (c # x) # xs))"

fun normalize_segs :: "bool \<Rightarrow> string list \<Rightarrow> string list \<Rightarrow> string list" where
  \<comment> \<open>Node's \<^verbatim>\<open>normalizeString\<close>: empty and \<^verbatim>\<open>.\<close> segments go, \<^verbatim>\<open>..\<close> takes the segment
      before it away; the third argument is the stack of segments kept so far\<close>
  "normalize_segs allow_above [] acc = rev acc"
| "normalize_segs allow_above (seg # segs) acc =
     (if seg = [] \<or> seg = ''.'' then normalize_segs allow_above segs acc
      else if seg = ''..'' then
        (case acc of
           a # acc' \<Rightarrow>
             if a \<noteq> ''..'' then normalize_segs allow_above segs acc'
             else normalize_segs allow_above segs (if allow_above then seg # acc else acc)
         | [] \<Rightarrow> normalize_segs allow_above segs (if allow_above then [seg] else []))
      else normalize_segs allow_above segs (seg # acc))"

fun join_with :: "string \<Rightarrow> string list \<Rightarrow> string" where
  "join_with sep [] = []"
| "join_with sep [x] = x"
| "join_with sep (x # y # ys) = x @ sep @ join_with sep (y # ys)"

definition path_normalize :: "string \<Rightarrow> string" where
  "path_normalize p =
     (if p = [] then ''.''
      else
        (let absolute = (hd p = CHR ''/'');
             trailing = (last p = CHR ''/'');
             body = join_with ''/'' (normalize_segs (\<not> absolute) (split_on CHR ''/'' p) [])
         in if body = [] then (if absolute then ''/'' else if trailing then ''./'' else ''.'')
            else (if absolute then ''/'' else []) @ body @ (if trailing then ''/'' else [])))"

definition path_join :: "string list \<Rightarrow> string" where
  "path_join args = path_normalize (join_with ''/'' (filter (\<lambda>a. a \<noteq> []) args))"

definition basename :: "string \<Rightarrow> string \<Rightarrow> string" where
  \<comment> \<open>\<^verbatim>\<open>path.basename(p, ext)\<close> for a path that does not end with a slash\<close>
  "basename p ext =
     (if p = ext then []
      else
        (let b = last (split_on CHR ''/'' p) in
         if ext \<noteq> [] \<and> length ext < length b \<and> drop (length b - length ext) b = ext
         then take (length b - length ext) b else b))"

section \<open>Numbers as text, arithmetic\<close>

definition digit_of :: "nat \<Rightarrow> char" where
  "digit_of k = ''0123456789'' ! k"

fun nat_digits :: "nat \<Rightarrow> string" where
  \<comment> \<open>the decimal digits of a natural number\<close>
  "nat_digits n =
     (if n < 10 then [digit_of n] else nat_digits (n div 10) @ [digit_of (n mod 10)])"

declare nat_digits.simps [simp del]

definition num_to_string :: "(jsval \<Rightarrow> string) \<Rightarrow> jsnum \<Rightarrow> string" where
  \<comment> \<open>Number to String: the plain digits of an integer below \<open>2\<^sup>5\<^sup>3\<close> in absolute value
      (from there on a double prints with its shortest digits, padded with zeros); every
      other finite number is left to the parameter \<open>other\<close>\<close>
  "num_to_string other n =
     (case n of
        NaN \<Rightarrow> ''NaN''
      | PosInf \<Rightarrow> ''Infinity''
      | NegInf \<Rightarrow> ''-Infinity''
      | Fin q \<Rightarrow>
          if of_int \<lfloor>q\<rfloor> = q \<and> \<bar>q\<bar> < 2 ^ 53
          then (if q < 0 then ''-'' else []) @ nat_digits (nat \<bar>\<lfloor>q\<rfloor>\<bar>)
          else other (JNum n))"

definition js_to_string :: "(jsval \<Rightarrow> string) \<Rightarrow> jsval \<Rightarrow> string" where
  \<comment> \<open>ToString, as a template literal applies it; arrays, objects and functions are left
      to the parameter\<close>
  "js_to_string other v =
     (case v of
        JStr s \<Rightarrow> s
      | JUndefined \<Rightarrow> ''undefined''
      | JNull \<Rightarrow> ''null''
      | JBool b \<Rightarrow> (if b then ''true'' else ''false'')
      | JNum n \<Rightarrow> num_to_string other n
      | _ \<Rightarrow> other v)"

definition to_number :: "(jsval \<Rightarrow> jsnum) \<Rightarrow> jsval \<Rightarrow> jsnum" where
  \<comment> \<open>ToNumber; strings, arrays, objects and functions are left to the parameter\<close>
  "to_number other v =
     (case v of
        JNum n \<Rightarrow> n
      | JUndefined \<Rightarrow> NaN
      | JNull \<Rightarrow> Fin 0
      | JBool b \<Rightarrow> Fin (if b then 1 else 0)
      | _ \<Rightarrow> other v)"

definition inf_times :: "bool \<Rightarrow> jsnum \<Rightarrow> jsnum" where
  \<comment> \<open>an infinity (positive when the flag is set) times a number\<close>
  "inf_times pos n =
     (case n of
        NaN \<Rightarrow> NaN
      | PosInf \<Rightarrow> (if pos then PosInf else NegInf)
      | NegInf \<Rightarrow> (if pos then NegInf else PosInf)
      | Fin q \<Rightarrow> if q = 0 then NaN else if (0 < q) = pos then PosInf else NegInf)"

fun js_times :: "jsnum \<Rightarrow> jsnum \<Rightarrow> jsnum" where
  \<comment> \<open>\<^verbatim>\<open>a * b\<close> on numbers: the exact product of two doubles, rounded to a double\<close>
  "js_times (Fin a) (Fin b) = to_double (a * b)"
| "js_times NaN b = NaN"
| "js_times PosInf b = inf_times True b"
| "js_times NegInf b = inf_times False b"
| "js_times (Fin a) NaN = NaN"
| "js_times (Fin a) PosInf = inf_times True (Fin a)"
| "js_times (Fin a) NegInf = inf_times False (Fin a)"

fun Math_round :: "jsnum \<Rightarrow> jsnum" where
  \<comment> \<open>\<^verbatim>\<open>Math.round\<close>: the nearest integer, a tie going up; no rounding error, as the
      result is a double whenever the argument is one\<close>
  "Math_round (Fin q) = Fin (of_int \<lfloor>q + 1 / 2\<rfloor>)"
| "Math_round n = n"

section \<open>The file system, the environment and effects\<close>

text \<open>
  What the code reads from its environment is a parameter of the model: the built-in
  functions it calls (\<^verbatim>\<open>eval\<close>, the conversions the model does not spell out,
  \<^verbatim>\<open>JSON.stringify\<close>), the outcome of every external call, the clock, the random job id,
  and which file-system operations fail. The state is the file system and a trace of what
  was evaluated, called and logged as an error.
\<close>

datatype fs_op =
  ReadFile string | WriteFile string | Unlink string | Mkdir string | Rm string
  | Stat string | Readdir string

record fs_file =
  file_content :: string
  mtimeMs :: int

record render_request =
  composition :: jsval
  durationInFrames :: jsnum
  fps_arg :: jsval
  width_arg :: jsval
  height_arg :: jsval
  serveUrl :: string
  codec :: string
  outputLocation :: string

datatype ext_call =
  EnsureBrowser
  | Bundle string string
  | SelectComposition string jsval
  | RenderMedia render_request

datatype event = Evaluated string | Called ext_call | Logged string

record world =
  files :: "(string \<times> fs_file) list"
  dirs :: "string list"
  trace :: "event list"

record env =
  js_eval :: "string \<Rightarrow> string + jsval"
  string_of_other :: "jsval \<Rightarrow> string"
  number_of_other :: "jsval \<Rightarrow> jsnum"
  JSON_stringify :: "jsval \<Rightarrow> string"
  fs_fault :: "fs_op \<Rightarrow> string option"
  dir_mtimeMs :: "string \<Rightarrow> int"
  ensureBrowser :: "string option"
  bundler :: "string \<Rightarrow> string \<Rightarrow> string + string"
  selectComposition :: "string \<Rightarrow> jsval \<Rightarrow> string + jsval"
  renderMedia :: "render_request \<Rightarrow> string + string"
  Date_now :: nat
  os_tmpdir :: string
  dirname :: string
  randomUUID :: string

type_synonym 'a io = "world \<Rightarrow> (string + 'a) \<times> world"

definition io_bind :: "'a io \<Rightarrow> ('a \<Rightarrow> 'b io) \<Rightarrow> 'b io" where
  \<comment> \<open>one statement after another: a thrown error (\<open>Inl\<close> its message) skips the rest\<close>
  "io_bind m f w = (case m w of (Inl e, w') \<Rightarrow> (Inl e, w') | (Inr x, w') \<Rightarrow> f x w')"

definition io_return :: "'a \<Rightarrow> 'a io" where
  "io_return x w = (Inr x, w)"

definition io_of :: "string + 'a \<Rightarrow> 'a io" where
  "io_of r w = (r, w)"

definition record_event :: "event \<Rightarrow> world \<Rightarrow> world" where
  "record_event e w = w\<lparr>trace := trace w @ [e]\<rparr>"

definition quoted :: "string \<Rightarrow> string" where
  \<comment> \<open>a path as an error message of Node shows it\<close>
  "quoted p = [CHR 0x27] @ p @ [CHR 0x27]"

definition existsSync :: "world \<Rightarrow> string \<Rightarrow> bool" where
  "existsSync w p = (map_of (files w) p \<noteq> None \<or> p \<in> set (dirs w))"

definition readFile :: "env \<Rightarrow> string \<Rightarrow> string io" where
  "readFile env p w =
     (case fs_fault env (ReadFile p) of
        Some e \<Rightarrow> (Inl e, w)
      | None \<Rightarrow> (case map_of (files w) p of
                   None \<Rightarrow>
                     (Inl (if p \<in> set (dirs w)
                           then ''EISDIR: illegal operation on a directory, read''
                           else ''ENOENT: no such file or directory, open '' @ quoted p), w)
                 | Some f \<Rightarrow> (Inr (file_content f), w)))"

definition writeFile :: "env \<Rightarrow> string \<Rightarrow> string \<Rightarrow> unit io" where
  "writeFile env p data w =
     (case fs_fault env (WriteFile p) of
        Some e \<Rightarrow> (Inl e, w)
      | None \<Rightarrow>
          (Inr (), w\<lparr>files := (p, \<lparr>file_content = data, mtimeMs = int (Date_now env)\<rparr>)
                                 # filter (\<lambda>e. fst e \<noteq> p) (files w)\<rparr>))"

definition unlink :: "env \<Rightarrow> string \<Rightarrow> unit io" where
  \<comment> \<open>removes a file; a directory is refused\<close>
  "unlink env p w =
     (case fs_fault env (Unlink p) of
        Some e \<Rightarrow> (Inl e, w)
      | None \<Rightarrow>
          if map_of (files w) p = None
          then (Inl ((if p \<in> set (dirs w)
                      then ''EISDIR: illegal operation on a directory, unlink ''
                      else ''ENOENT: no such file or directory, unlink '') @ quoted p), w)
          else (Inr (), w\<lparr>files := filter (\<lambda>e. fst e \<noteq> p) (files w)\<rparr>))"

definition mkdirSync :: "env \<Rightarrow> string \<Rightarrow> unit io" where
  \<comment> \<open>with \<^verbatim>\<open>recursive: true\<close>: no error when the directory is there already\<close>
  "mkdirSync env p w =
     (case fs_fault env (Mkdir p) of
        Some e \<Rightarrow> (Inl e, w)
      | None \<Rightarrow> (Inr (), w\<lparr>dirs := List.insert p (dirs w)\<rparr>))"

definition inside :: "string \<Rightarrow> string \<Rightarrow> bool" where
  \<comment> \<open>the path \<open>p\<close> lies below the directory \<open>d\<close>\<close>
  "inside d p = (take (length d + 1) p = d @ ''/'')"

definition rmSync :: "env \<Rightarrow> string \<Rightarrow> unit io" where
  \<comment> \<open>with \<^verbatim>\<open>recursive: true, force: true\<close>: the path and all below it; no error when
      it is not there\<close>
  "rmSync env d w =
     (case fs_fault env (Rm d) of
        Some e \<Rightarrow> (Inl e, w)
      | None \<Rightarrow>
          (Inr (), w\<lparr>files := filter (\<lambda>e. fst e \<noteq> d \<and> \<not> inside d (fst e)) (files w),
                      dirs := filter (\<lambda>q. q \<noteq> d \<and> \<not> inside d q) (dirs w)\<rparr>))"

definition stat :: "env \<Rightarrow> string \<Rightarrow> int io" where
  \<comment> \<open>\<^verbatim>\<open>(await fs.stat(p)).mtimeMs\<close>, of a file or of a directory; the time of a directory
      is read from the environment\<close>
  "stat env p w =
     (case fs_fault env (Stat p) of
        Some e \<Rightarrow> (Inl e, w)
      | None \<Rightarrow> (case map_of (files w) p of
                   None \<Rightarrow>
                     if p \<in> set (dirs w) then (Inr (dir_mtimeMs env p), w)
                     else (Inl (''ENOENT: no such file or directory, stat '' @ quoted p), w)
                 | Some f \<Rightarrow> (Inr (mtimeMs f), w)))"

definition readdir :: "env \<Rightarrow> string \<Rightarrow> string list io" where
  \<comment> \<open>the names of what lies directly in the directory, files and directories alike, in
      the order in which the state holds them\<close>
  "readdir env d w =
     (case fs_fault env (Readdir d) of
        Some e \<Rightarrow> (Inl e, w)
      | None \<Rightarrow>
          if d \<in> set (dirs w)
          then (Inr (filter (\<lambda>n. n \<noteq> [] \<and> CHR ''/'' \<notin> set n)
                       (map (drop (length d + 1))
                          (filter (inside d) (map fst (files w) @ dirs w)))), w)
          else (Inl ((if map_of (files w) d = None
                      then ''ENOENT: no such file or directory, scandir ''
                      else ''ENOTDIR: not a directory, scandir '') @ quoted d), w))"

definition call_ensureBrowser :: "env \<Rightarrow> unit io" where
  "call_ensureBrowser env w =
     (case ensureBrowser env of Some e \<Rightarrow> Inl e | None \<Rightarrow> Inr (),
      record_event (Called EnsureBrowser) w)"

definition call_bundle :: "env \<Rightarrow> string \<Rightarrow> string \<Rightarrow> string io" where
  \<comment> \<open>\<^verbatim>\<open>bundle({entryPoint, webpackOverride})\<close>; the override puts the second argument
      first among the module roots\<close>
  "call_bundle env entryPoint modules w =
     (bundler env entryPoint modules, record_event (Called (Bundle entryPoint modules)) w)"

definition call_selectComposition :: "env \<Rightarrow> string \<Rightarrow> jsval \<Rightarrow> jsval io" where
  "call_selectComposition env url i w =
     (selectComposition env url i, record_event (Called (SelectComposition url i)) w)"

definition call_renderMedia :: "env \<Rightarrow> render_request \<Rightarrow> unit io" where
  \<comment> \<open>on success the renderer has written the video to \<^verbatim>\<open>outputLocation\<close>\<close>
  "call_renderMedia env req w =
     (case renderMedia env req of
        Inl e \<Rightarrow> (Inl e, record_event (Called (RenderMedia req)) w)
      | Inr video \<Rightarrow>
          (Inr (),
           (record_event (Called (RenderMedia req)) w)
             \<lparr>files := (outputLocation req, \<lparr>file_content = video, mtimeMs = int (Date_now env)\<rparr>)
                        # filter (\<lambda>e. fst e \<noteq> outputLocation req) (files w)\<rparr>))"

subsection \<open>The extractor and the detector on a file\<close>

definition extractCompositionConfig :: "env \<Rightarrow> string \<Rightarrow> config io" where
  "extractCompositionConfig env filePath =
     io_bind (readFile env filePath) (\<lambda>content.
       let filename = basename filePath ''.tsx'' in
       case configMatch content of
         None \<Rightarrow>
           io_of (Inl (''No compositionConfig found in '' @ filename @ ''.tsx'' @ [CHR 0x0A]
                       @ ''Your file must export a compositionConfig object.''))
       | Some lit \<Rightarrow>
           (\<lambda>w. (Inr (config_from_literal (js_eval env) filename lit),
                  record_event (Evaluated (eval_source lit)) w)))"

definition detectExportStyle_file :: "env \<Rightarrow> string \<Rightarrow> export_style io" where
  "detectExportStyle_file env filePath =
     io_bind (readFile env filePath) (\<lambda>content.
       io_return (detectExportStyle (basename filePath ''.tsx'') content))"

section \<open>The temporary project (\<^verbatim>\<open>createTempProject\<close>, \<^verbatim>\<open>cleanupTempProject\<close>)\<close>

definition indexTs :: string where
  "indexTs = ''import { registerRoot } from 'remotion';
import { Root } from './Root';

registerRoot(Root);
''"

definition rootTsx :: "env \<Rightarrow> string \<Rightarrow> string \<Rightarrow> config \<Rightarrow> jsnum \<Rightarrow> string" where
  \<comment> \<open>the template of \<^verbatim>\<open>Root.tsx\<close>, every \<^verbatim>\<open>${...}\<close> filled in\<close>
  \<open>rootTsx env importStatement componentName cfg frames =
     ''import React from 'react';
import { Composition } from 'remotion';
'' @ importStatement @ ''

export const Root: React.FC = () => {
  return (
    <Composition
      id="'' @ js_to_string (string_of_other env) (id' cfg) @ ''"
      component={'' @ componentName @ ''}
      durationInFrames={'' @ num_to_string (string_of_other env) frames @ ''}
      fps={'' @ js_to_string (string_of_other env) (fps cfg) @ ''}
      width={'' @ js_to_string (string_of_other env) (width cfg) @ ''}
      height={'' @ js_to_string (string_of_other env) (height cfg) @ ''}
      defaultProps={'' @ JSON_stringify env (js_or (defaultProps cfg) (JObj [])) @ ''}
    />
  );
};
''\<close>

definition tsconfig_json :: string where
  \<comment> \<open>\<^verbatim>\<open>JSON.stringify(tsconfig, null, 2)\<close>\<close>
  \<open>tsconfig_json = ''{
  "compilerOptions": {
    "target": "ES2020",
    "module": "commonjs",
    "lib": [
      "ES2020",
      "DOM"
    ],
    "jsx": "react-jsx",
    "strict": true,
    "esModuleInterop": true,
    "skipLibCheck": true,
    "forceConsistentCasingInFileNames": true,
    "resolveJsonModule": true,
    "moduleResolution": "node"
  },
  "include": [
    "src/**/*"
  ]
}''\<close>

definition remotionConfig :: string where
  "remotionConfig = ''import { Config } from '@remotion/cli/config';

Config.setVideoImageFormat('jpeg');
Config.setOverwriteOutput(true);
''"

definition frames_of :: "env \<Rightarrow> config \<Rightarrow> jsnum" where
  \<comment> \<open>\<^verbatim>\<open>Math.round(config.durationInSeconds * config.fps)\<close>, written out in the same way in
      \<^verbatim>\<open>createTempProject\<close> and in the handler\<close>
  "frames_of env cfg =
     Math_round (js_times (to_number (number_of_other env) (durationInSeconds cfg))
                          (to_number (number_of_other env) (fps cfg)))"

definition tempDir_name :: "env \<Rightarrow> string" where
  \<comment> \<open>\<^verbatim>\<open>path.join(os.tmpdir(), `remotion-render-${Date.now()}`)\<close>; \<^verbatim>\<open>Date.now()\<close> is a whole
      number of milliseconds, far below \<open>10\<^sup>2\<^sup>1\<close>, which a template literal renders in plain
      decimal digits\<close>
  "tempDir_name env = path_join [os_tmpdir env, ''remotion-render-'' @ nat_digits (Date_now env)]"

definition import_statement :: "export_style \<Rightarrow> string \<Rightarrow> string \<Rightarrow> string" where
  \<comment> \<open>the \<^verbatim>\<open>import\<close> line for the export style\<close>
  "import_statement exportStyle componentName tsxFileUrl =
     (case exportStyle of
        DefaultExport \<Rightarrow>
          ''import '' @ componentName @ '' from '' @ [CHR 0x27] @ tsxFileUrl @ [CHR 0x27] @ '';''
      | NamedExport name \<Rightarrow>
          ''import { '' @ name @ '' as '' @ componentName @ '' } from '' @ [CHR 0x27]
          @ tsxFileUrl @ [CHR 0x27] @ '';'')"

definition createTempProject :: "env \<Rightarrow> string \<Rightarrow> config \<Rightarrow> string io" where
  "createTempProject env tsxFilePath cfg =
     (let tempDir = tempDir_name env;
          srcDir = path_join [tempDir, ''src'']
      in
      io_bind (mkdirSync env tempDir) (\<lambda>_.
      io_bind (mkdirSync env srcDir) (\<lambda>_.
      io_bind (detectExportStyle_file env tsxFilePath) (\<lambda>exportStyle.
        let tsxFileUrl = map (\<lambda>c. if c = CHR 0x5C then CHR ''/'' else c) tsxFilePath;
            componentName = ''UserComponent'';
            importStatement = import_statement exportStyle componentName tsxFileUrl;
            frames = frames_of env cfg
        in
        io_bind (writeFile env (path_join [srcDir, ''index.ts'']) indexTs) (\<lambda>_.
        io_bind (writeFile env (path_join [srcDir, ''Root.tsx''])
                   (rootTsx env importStatement componentName cfg frames)) (\<lambda>_.
        io_bind (writeFile env (path_join [tempDir, ''tsconfig.json'']) tsconfig_json) (\<lambda>_.
        io_bind (writeFile env (path_join [tempDir, ''remotion.config.ts'']) remotionConfig) (\<lambda>_.
        io_return tempDir))))))))"

definition cleanupTempProject :: "env \<Rightarrow> string \<Rightarrow> world \<Rightarrow> world" where
  \<comment> \<open>an error of \<^verbatim>\<open>rmSync\<close> is caught and ignored\<close>
  "cleanupTempProject env tempDir w =
     (if tempDir \<noteq> [] \<and> existsSync w tempDir
      then (case rmSync env tempDir w of
              (Inr _, w') \<Rightarrow> w'
            | (Inl e, w') \<Rightarrow> w')
      else w)"

section \<open>The render handler (\<^verbatim>\<open>POST /render\<close>)\<close>

datatype payload =
  ErrorPayload string string "string option" "string option"
    \<comment> \<open>\<^verbatim>\<open>{error, message, details?, jobId?}\<close>\<close>
  | Video string

record reply =
  status :: nat
  headers :: "(string \<times> string) list"
  body :: payload

datatype outcome =
  Replied reply
  | Rejected string  \<comment> \<open>an exception that leaves the handler\<close>

definition MAX_TSX_SIZE :: nat where
  "MAX_TSX_SIZE = 1024 * 1024"

definition TEMP_DIR :: "env \<Rightarrow> string" where
  "TEMP_DIR env = path_join [dirname env, ''temp'']"

definition OUTPUT_DIR :: "env \<Rightarrow> string" where
  "OUTPUT_DIR env = path_join [dirname env, ''outputs'']"

definition missing_tsx_reply :: reply where
  \<open>missing_tsx_reply =
     \<lparr> status = 400, headers = [],
       body = ErrorPayload ''Missing or invalid tsx field''
                ''Request body must include a "tsx" field with TSX code as a string''
                None None \<rparr>\<close>

definition too_large_reply :: reply where
  \<comment> \<open>\<^verbatim>\<open>${MAX_TSX_SIZE / 1024}\<close> is 1024\<close>
  "too_large_reply =
     \<lparr> status = 400, headers = [],
       body = ErrorPayload ''TSX code too large'' ''TSX code must be less than 1024KB''
                None None \<rparr>"

definition invalid_config_reply :: "string \<Rightarrow> reply" where
  "invalid_config_reply details =
     \<lparr> status = 400, headers = [],
       body = ErrorPayload ''Invalid composition config''
                ''TSX must export a compositionConfig object with id, durationInSeconds, fps, width, and height''
                (Some details) None \<rparr>"

definition render_failed_reply :: "string \<Rightarrow> string \<Rightarrow> reply" where
  "render_failed_reply message jobId =
     \<lparr> status = 500, headers = [],
       body = ErrorPayload ''Render failed'' message None (Some jobId) \<rparr>"

definition video_reply :: "string \<Rightarrow> string \<Rightarrow> reply" where
  \<open>video_reply outputFileName stream =
     \<lparr> status = 200,
       headers = [(''Content-Type'', ''video/mp4''),
                  (''Content-Disposition'', ''attachment; filename="'' @ outputFileName @ ''"'')],
       body = Video stream \<rparr>\<close>

definition render_steps ::
  "env \<Rightarrow> config \<Rightarrow> string \<Rightarrow> string \<Rightarrow> string \<Rightarrow> string \<Rightarrow> reply io" where
  \<comment> \<open>the \<^verbatim>\<open>try\<close> block from the bundling on, once \<^verbatim>\<open>tempProjectDir\<close> is set\<close>
  "render_steps env cfg tempProjectDir tsxFilePath outputFileName outputPath =
     (let entryPoint = path_join [tempProjectDir, ''src'', ''index.ts''];
          rendererNodeModules = path_join [dirname env, ''node_modules'']
      in
      io_bind (call_bundle env entryPoint rendererNodeModules) (\<lambda>bundleLocation.
      io_bind (call_selectComposition env bundleLocation (id' cfg)) (\<lambda>selected.
      io_bind (io_of (get_prop selected ''id'')) (\<lambda>compositionId.
        let frames = frames_of env cfg in
        io_bind (call_renderMedia env
                   \<lparr> composition = selected,
                     durationInFrames = frames,
                     fps_arg = fps cfg,
                     width_arg = width cfg,
                     height_arg = height cfg,
                     serveUrl = bundleLocation,
                     codec = ''h264'',
                     outputLocation = outputPath \<rparr>) (\<lambda>_.
        io_bind (unlink env tsxFilePath) (\<lambda>_.
        io_bind (readFile env outputPath) (\<lambda>stream.
        io_return (video_reply outputFileName stream))))))))"

definition render_try ::
  "env \<Rightarrow> string \<Rightarrow> string \<Rightarrow> string \<Rightarrow> string \<Rightarrow> world
     \<Rightarrow> (string + reply) \<times> string option \<times> world" where
  \<comment> \<open>the \<^verbatim>\<open>try\<close> block: what it returns or throws, the value of \<^verbatim>\<open>tempProjectDir\<close>
      when it is left, and the state\<close>
  "render_try env tsx tsxFilePath outputFileName outputPath w =
     (case writeFile env tsxFilePath tsx w of
        (Inl err, w1) \<Rightarrow> (Inl err, None, w1)
      | (Inr _, w1) \<Rightarrow>
     (case extractCompositionConfig env tsxFilePath w1 of
        (Inl err, w2) \<Rightarrow> (Inr (invalid_config_reply err), None, w2)
      | (Inr cfg, w2) \<Rightarrow>
     (case call_ensureBrowser env w2 of
        (Inl err, w3) \<Rightarrow> (Inl err, None, w3)
      | (Inr _, w3) \<Rightarrow>
     (case createTempProject env tsxFilePath cfg w3 of
        (Inl err, w4) \<Rightarrow> (Inl err, None, w4)
      | (Inr tempProjectDir, w4) \<Rightarrow>
     (case render_steps env cfg tempProjectDir tsxFilePath outputFileName outputPath w4 of
        (r, w5) \<Rightarrow> (r, Some tempProjectDir, w5))))))"

definition catch_cleanup :: "env \<Rightarrow> string \<Rightarrow> string \<Rightarrow> world \<Rightarrow> world" where
  \<comment> \<open>the clean-up of the \<^verbatim>\<open>catch\<close> block: both deletions in one \<^verbatim>\<open>try\<close>, a failure logged\<close>
  "catch_cleanup env tsxFilePath outputPath w =
     (case io_bind (if existsSync w tsxFilePath then unlink env tsxFilePath else io_return ())
             (\<lambda>_ w1. if existsSync w1 outputPath then unlink env outputPath w1
                      else io_return () w1) w of
        (Inr _, w2) \<Rightarrow> w2
      | (Inl cleanupErr, w2) \<Rightarrow> record_event (Logged ''Cleanup failed'') w2)"

definition render_job ::
  "env \<Rightarrow> string \<Rightarrow> string \<Rightarrow> string \<Rightarrow> string \<Rightarrow> string \<Rightarrow> world \<Rightarrow> outcome \<times> world" where
  \<comment> \<open>\<^verbatim>\<open>try\<close>, \<^verbatim>\<open>catch\<close> and \<^verbatim>\<open>finally\<close> of the handler\<close>
  "render_job env jobId tsx tsxFilePath outputFileName outputPath w =
     (case render_try env tsx tsxFilePath outputFileName outputPath w of
        (result, tempProjectDir, w1) \<Rightarrow>
          (let (out, w2) =
                 (case result of
                    Inr r \<Rightarrow> (Replied r, w1)
                  | Inl err \<Rightarrow>
                      (Replied (render_failed_reply err jobId),
                       catch_cleanup env tsxFilePath outputPath
                         (record_event (Logged ''Render failed'') w1)));
               w3 = (case tempProjectDir of
                       None \<Rightarrow> w2
                     | Some d \<Rightarrow> cleanupTempProject env d w2)
           in (out, w3)))"

definition render_handler :: "env \<Rightarrow> jsval \<Rightarrow> world \<Rightarrow> outcome \<times> world" where
  \<comment> \<open>\<open>req_body\<close> is \<^verbatim>\<open>request.body\<close>; destructuring \<^verbatim>\<open>null\<close> or \<^verbatim>\<open>undefined\<close> throws, and
      so does \<^verbatim>\<open>path.join\<close> on a file name that is not a string\<close>
  "render_handler env req_body w =
     (case sum_bind (get_prop req_body ''tsx'') (\<lambda>t.
           sum_bind (get_prop req_body ''filename'') (\<lambda>f. Inr (t, f))) of
        Inl err \<Rightarrow> (Rejected err, w)
      | Inr (tsx, filename) \<Rightarrow>
          (case tsx of
             JStr code \<Rightarrow>
               if code = [] then (Replied missing_tsx_reply, w)
               else if length code > MAX_TSX_SIZE then (Replied too_large_reply, w)
               else
                 (let jobId = randomUUID env;
                      tsxFilePath = path_join [TEMP_DIR env, jobId @ ''.tsx'']
                  in case js_or filename (JStr (jobId @ ''.mp4'')) of
                       JStr outputFileName \<Rightarrow>
                         render_job env jobId code tsxFilePath outputFileName
                           (path_join [OUTPUT_DIR env, outputFileName]) w
                     | _ \<Rightarrow> (Rejected ''TypeError [ERR_INVALID_ARG_TYPE]'', w))
           | _ \<Rightarrow> (Replied missing_tsx_reply, w)))"

section \<open>The reaper (\<^verbatim>\<open>cleanupOldFiles\<close>)\<close>

definition ONE_HOUR :: int where
  "ONE_HOUR = 60 * 60 * 1000"

definition sweep_file :: "env \<Rightarrow> string \<Rightarrow> unit io" where
  \<comment> \<open>the body of the inner loop: \<^verbatim>\<open>stat\<close>, and \<^verbatim>\<open>unlink\<close> when the entry is older than an
      hour\<close>
  "sweep_file env filePath =
     io_bind (stat env filePath) (\<lambda>mtime.
       if int (Date_now env) - mtime > ONE_HOUR then unlink env filePath else io_return ())"

fun sweep_files :: "env \<Rightarrow> string \<Rightarrow> string list \<Rightarrow> unit io" where
  \<comment> \<open>the inner \<^verbatim>\<open>for (const file of files)\<close>: the first error of \<^verbatim>\<open>stat\<close> or \<^verbatim>\<open>unlink\<close>
      leaves the loop\<close>
  "sweep_files env dir [] = io_return ()"
| "sweep_files env dir (f # rest) =
     io_bind (sweep_file env (path_join [dir, f])) (\<lambda>_. sweep_files env dir rest)"

definition sweep_dir :: "env \<Rightarrow> string \<Rightarrow> world \<Rightarrow> world" where
  \<comment> \<open>one round of the outer loop: the \<^verbatim>\<open>try\<close> around the listing and the inner loop, and
      its \<^verbatim>\<open>catch\<close>\<close>
  "sweep_dir env dir w =
     (case io_bind (readdir env dir) (sweep_files env dir) w of
        (Inr _, w') \<Rightarrow> w'
      | (Inl err, w') \<Rightarrow> record_event (Logged (''Cleanup error in '' @ dir @ '': '' @ err)) w')"

definition cleanupOldFiles :: "env \<Rightarrow> world \<Rightarrow> world" where
  "cleanupOldFiles env w = fold (sweep_dir env) [TEMP_DIR env, OUTPUT_DIR env] w"

subsection \<open>What the two patterns mean\<close>

definition default_export_occurs :: "string \<Rightarrow> bool" where
  \<comment> \<open>the specification's words: the keyword \<^verbatim>\<open>export\<close>, at least one white-space character
      and the keyword \<^verbatim>\<open>default\<close> stand somewhere in the text\<close>
  "default_export_occurs content =
     (\<exists>pre ws post. content = pre @ ''export'' @ ws @ ''default'' @ post
        \<and> ws \<noteq> [] \<and> list_all is_space ws)"

definition spec_export_style :: "string \<Rightarrow> string \<Rightarrow> export_style" where
  \<comment> \<open>the specification's detection order (a), (b), (c)\<close>
  "spec_export_style filename content =
     (if default_export_occurs content then DefaultExport
      else (case filter (\<lambda>n. n \<noteq> ''compositionConfig'') (matchAll_named content) of
              n # _ \<Rightarrow> NamedExport n
            | [] \<Rightarrow> NamedExport filename))"

lemma spaces1_Some:
  "spaces1 s = Some r \<longleftrightarrow>
     (\<exists>ws. s = ws @ r \<and> ws \<noteq> [] \<and> list_all is_space ws \<and> (r = [] \<or> \<not> is_space (hd r)))"
proof
  assume "spaces1 s = Some r"
  then obtain c cs where s: "s = c # cs" and c: "is_space c" and r: "r = dropWhile is_space cs"
    by (auto simp: spaces1_def split: list.splits if_splits)
  have "s = (c # takeWhile is_space cs) @ r" by (simp add: s r)
  moreover have "list_all is_space (c # takeWhile is_space cs)"
    using c by (auto simp: list_all_iff dest: set_takeWhileD)
  moreover have "r = [] \<or> \<not> is_space (hd r)"
    unfolding r by (metis hd_dropWhile)
  ultimately show "\<exists>ws. s = ws @ r \<and> ws \<noteq> [] \<and> list_all is_space ws \<and> (r = [] \<or> \<not> is_space (hd r))"
    by blast
next
  assume "\<exists>ws. s = ws @ r \<and> ws \<noteq> [] \<and> list_all is_space ws \<and> (r = [] \<or> \<not> is_space (hd r))"
  then obtain w ws where s: "s = (w # ws) @ r" and w: "is_space w"
    and ws: "\<And>x. x \<in> set ws \<Longrightarrow> is_space x" and r: "r = [] \<or> \<not> is_space (hd r)"
    by (cases "SOME ws. s = ws @ r \<and> ws \<noteq> [] \<and> list_all is_space ws")
       (auto simp: list_all_iff neq_Nil_conv)
  have "dropWhile is_space (ws @ r) = dropWhile is_space r"
    using ws by (simp add: dropWhile_append2)
  also have "\<dots> = r" using r by (cases r) auto
  finally show "spaces1 s = Some r" by (simp add: spaces1_def s w)
qed

lemma default_export_at_iff:
  "default_export_at s \<longleftrightarrow>
     (\<exists>ws post. s = ''export'' @ ws @ ''default'' @ post \<and> ws \<noteq> [] \<and> list_all is_space ws)"
proof
  assume "default_export_at s"
  then obtain r r' post where "strip_prefix ''export'' s = Some r" "spaces1 r = Some r'"
    "strip_prefix ''default'' r' = Some post"
    by (auto simp: default_export_at_def split: option.splits)
  then show "\<exists>ws post. s = ''export'' @ ws @ ''default'' @ post \<and> ws \<noteq> [] \<and> list_all is_space ws"
    unfolding strip_prefix_Some spaces1_Some by auto
next
  assume "\<exists>ws post. s = ''export'' @ ws @ ''default'' @ post \<and> ws \<noteq> [] \<and> list_all is_space ws"
  then obtain ws post where s: "s = ''export'' @ ws @ ''default'' @ post"
    and ws: "ws \<noteq> []" "list_all is_space ws" by blast
  define t where "t = ''default'' @ post"
  have a: "strip_prefix ''export'' s = Some (ws @ t)"
    unfolding strip_prefix_Some s t_def by simp
  have "\<not> is_space (hd t)" "t \<noteq> []" by (simp_all add: is_space_def t_def)
  then have b: "spaces1 (ws @ t) = Some t"
    unfolding spaces1_Some using ws by auto
  have c: "strip_prefix ''default'' t = Some post"
    unfolding strip_prefix_Some t_def by simp
  show "default_export_at s"
    unfolding default_export_at_def by (simp add: a b c)
qed

lemma test_export_default_iff: "test_export_default s \<longleftrightarrow> default_export_occurs s"
proof
  show "test_export_default s \<Longrightarrow> default_export_occurs s"
  proof (induction s)
    case Nil
    then show ?case by simp
  next
    case (Cons c cs)
    show ?case
    proof (cases "default_export_at (c # cs)")
      case True
      then obtain ws post where "c # cs = [] @ ''export'' @ ws @ ''default'' @ post"
        "ws \<noteq> []" "list_all is_space ws"
        unfolding default_export_at_iff by auto
      then show ?thesis unfolding default_export_occurs_def by blast
    next
      case False
      with Cons have "default_export_occurs cs" by simp
      then obtain pre ws post where "cs = pre @ ''export'' @ ws @ ''default'' @ post"
        "ws \<noteq> []" "list_all is_space ws"
        unfolding default_export_occurs_def by blast
      then have "c # cs = (c # pre) @ ''export'' @ ws @ ''default'' @ post \<and> ws \<noteq> []
          \<and> list_all is_space ws" by simp
      then show ?thesis unfolding default_export_occurs_def by blast
    qed
  qed
next
  assume "default_export_occurs s"
  then obtain pre ws post where s: "s = pre @ ''export'' @ ws @ ''default'' @ post"
    and ws: "ws \<noteq> []" "list_all is_space ws"
    unfolding default_export_occurs_def by blast
  show "test_export_default s"
    unfolding s
  proof (induction pre)
    case Nil
    have "default_export_at (''export'' @ ws @ ''default'' @ post)"
      unfolding default_export_at_iff using ws by blast
    then show ?case by simp
  next
    case (Cons p pre)
    then show ?case by simp
  qed
qed

lemma first_component_filter:
  "first_component ns =
     (case filter (\<lambda>n. n \<noteq> ''compositionConfig'') ns of [] \<Rightarrow> None | n # _ \<Rightarrow> Some n)"
  by (induction ns) auto

text \<open>
  C6. For every source text, detection returns the default style whenever the
  default-export keyword sequence occurs anywhere in the text (whatever named exports
  exist); otherwise the first capitalised named export of a const or function, in source
  order, whose name is not \<^verbatim>\<open>compositionConfig\<close>; otherwise the named style with the
  file's base name.
\<close>

theorem detectExportStyle_order:
  "detectExportStyle filename content = spec_export_style filename content"
  unfolding detectExportStyle_def spec_export_style_def
    test_export_default_iff first_component_filter
  by (simp split: list.splits)

theorem detectExportStyle_order_witness:
  "detectExportStyle ''job'' ''export const A = 1; export  default B'' = DefaultExport
   \<and> detectExportStyle ''job'' ''export const compositionConfig = {}; export function Ab1(){}''
       = NamedExport ''Ab1''
   \<and> detectExportStyle ''job'' ''const a = 1'' = NamedExport ''job''"
proof -
  have 1: "spec_export_style ''job'' ''export const A = 1; export  default B'' = DefaultExport"
  proof -
    have "''export const A = 1; export  default B''
            = ''export const A = 1; '' @ ''export'' @ ''  '' @ ''default'' @ '' B''
          \<and> ''  '' \<noteq> [] \<and> list_all is_space ''  ''"
      by (simp add: is_space_def)
    then have "default_export_occurs ''export const A = 1; export  default B''"
      unfolding default_export_occurs_def by blast
    then show ?thesis by (simp add: spec_export_style_def)
  qed
  have 2: "detectExportStyle ''job''
             ''export const compositionConfig = {}; export function Ab1(){}'' = NamedExport ''Ab1''"
    by code_simp
  have 3: "detectExportStyle ''job'' ''const a = 1'' = NamedExport ''job''"
    by code_simp
  from 1 2 3 show ?thesis
    using detectExportStyle_order [of "''job''" "''export const A = 1; export  default B''"]
    by simp
qed


section \<open>Properties of the extractor\<close>

definition eval_table :: "(string \<times> jsval) list" where
  \<comment> \<open>what \<^verbatim>\<open>eval\<close> returns on the well-formed texts of the concrete runs below\<close>
  "eval_table =
     [(''({ fps: 24  })'', JObj [(''fps'', JNum (Fin 24))]),
      (''({ id: (() => 'x')() })'', JObj [(''id'', JStr ''x'')]),
      (''({ id: 'demo', fps: 24, width: 640, height: 480, durationInSeconds: 2 })'',
       JObj [(''id'', JStr ''demo''), (''fps'', JNum (Fin 24)), (''width'', JNum (Fin 640)),
             (''height'', JNum (Fin 480)), (''durationInSeconds'', JNum (Fin 2))])]"

definition example_env :: env where
  \<comment> \<open>an environment in which nothing fails, for the concrete runs below; \<^verbatim>\<open>eval\<close> knows
      the texts of \<open>eval_table\<close> and throws on the others, which are malformed; the two
      numbers it prints are the doubles nearest to 29.97 and to 0.7\<close>
  "example_env =
     \<lparr> js_eval = (\<lambda>src. case map_of eval_table src of
                             Some v \<Rightarrow> Inr v
                           | None \<Rightarrow> Inl ''SyntaxError''),
       string_of_other =
         (\<lambda>v. if v = JNum (Fin (1054475631502295 / 2 ^ 45)) then ''29.97''
              else if v = JNum (Fin (3152519739159347 / 2 ^ 52)) then ''0.7''
              else ''[object Object]''),
       number_of_other = (\<lambda>v. NaN),
       JSON_stringify = (\<lambda>v. ''{}''),
       fs_fault = (\<lambda>op. None),
       dir_mtimeMs = (\<lambda>p. 0),
       ensureBrowser = None,
       bundler = (\<lambda>entry modules. Inr ''/tmp/bundle''),
       selectComposition = (\<lambda>url i. Inr (JObj [(''id'', i)])),
       renderMedia = (\<lambda>req. Inr ''mp4-bytes''),
       Date_now = 1700000000000,
       os_tmpdir = ''/tmp'',
       dirname = ''/srv'',
       randomUUID = ''job-1'' \<rparr>"

definition world_with :: "string \<Rightarrow> string \<Rightarrow> world" where
  \<comment> \<open>a file system that holds one file\<close>
  "world_with p data =
     \<lparr> files = [(p, \<lparr>file_content = data, mtimeMs = 0\<rparr>)], dirs = [], trace = [] \<rparr>"

lemma extractCompositionConfig_run:
  assumes "readFile env filePath w = (Inr text, w)"
  shows "extractCompositionConfig env filePath w =
     (case configMatch text of
        None \<Rightarrow> (Inl (''No compositionConfig found in '' @ basename filePath ''.tsx'' @ ''.tsx''
                      @ [CHR 0x0A] @ ''Your file must export a compositionConfig object.''), w)
      | Some lit \<Rightarrow> (Inr (config_from_literal (js_eval env) (basename filePath ''.tsx'') lit),
                     record_event (Evaluated (eval_source lit)) w))"
  using assms
  by (simp add: extractCompositionConfig_def io_bind_def io_of_def split: option.splits)

text \<open>
  C3 as stated fails: the extractor hands text of the input to \<^verbatim>\<open>eval\<close>. Here the
  captured literal holds the call of a function; the call is part of what is evaluated,
  and what it returns is the \<^verbatim>\<open>id\<close> of the config.
\<close>

theorem extractCompositionConfig_evaluates_input:
  "extractCompositionConfig example_env ''/srv/temp/job-1.tsx''
     (world_with ''/srv/temp/job-1.tsx''
        ''export const compositionConfig = { id: (() => 'x')() };'')
   = (Inr \<lparr> id' = JStr ''x'', durationInSeconds = JNum (Fin 5), fps = JNum (Fin 30),
            width = JNum (Fin 1080), height = JNum (Fin 1920), defaultProps = JObj [] \<rparr>,
      \<lparr> files = [(''/srv/temp/job-1.tsx'',
                  \<lparr>file_content = ''export const compositionConfig = { id: (() => 'x')() };'',
                     mtimeMs = 0\<rparr>)],
        dirs = [],
        trace = [Evaluated ''({ id: (() => 'x')() })''] \<rparr>)"
proof -
  let ?p = "''/srv/temp/job-1.tsx''"
  let ?text = "''export const compositionConfig = { id: (() => 'x')() };''"
  have r: "readFile example_env ?p (world_with ?p ?text) = (Inr ?text, world_with ?p ?text)"
    by (simp add: readFile_def example_env_def world_with_def)
  have m: "configMatch ?text = Some ''{ id: (() => 'x')() }''"
    by code_simp
  have e: "eval_source ''{ id: (() => 'x')() }'' = ''({ id: (() => 'x')() })''"
    by code_simp
  have v: "js_eval example_env ''({ id: (() => 'x')() })'' = Inr (JObj [(''id'', JStr ''x'')])"
    by (simp add: example_env_def eval_table_def)
  show ?thesis
    unfolding extractCompositionConfig_run [OF r]
    by (simp add: m e v config_from_literal_def sum_bind_def backfill_def js_or_def
        DEFAULTS_fps_def DEFAULTS_width_def DEFAULTS_height_def DEFAULTS_durationInSeconds_def
        record_event_def world_with_def)
qed

text \<open>
  C3, amended. For every source text in which the configuration pattern matches, the
  extractor evaluates the captured literal with \<^verbatim>\<open>eval\<close>, once: the literal without its
  comments and trailing commas, in parentheses, is executed as JavaScript, and the
  configuration is computed from what that evaluation returns or throws. When the pattern
  does not match, nothing is evaluated.
\<close>

theorem extractCompositionConfig_eval:
  assumes "readFile env filePath w = (Inr text, w)"
  shows "trace (snd (extractCompositionConfig env filePath w)) =
           trace w @ (case configMatch text of None \<Rightarrow> []
                      | Some lit \<Rightarrow> [Evaluated (eval_source lit)])
         \<and> (\<forall>lit. configMatch text = Some lit \<longrightarrow>
               fst (extractCompositionConfig env filePath w) =
                 Inr (case sum_bind (js_eval env (eval_source lit))
                             (backfill (basename filePath ''.tsx'')) of
                        Inr c \<Rightarrow> c
                      | Inl evalError \<Rightarrow> fallback_config (basename filePath ''.tsx'') lit))"
  unfolding extractCompositionConfig_run [OF assms]
  by (simp add: record_event_def config_from_literal_def split: option.splits)

theorem extractCompositionConfig_eval_witness:
  "trace (snd (extractCompositionConfig example_env ''/srv/temp/job-1.tsx''
           (world_with ''/srv/temp/job-1.tsx''
              ''export const compositionConfig = { fps: 24, /* c */ };'')))
     = [Evaluated ''({ fps: 24  })'']
   \<and> fst (extractCompositionConfig example_env ''/srv/temp/job-1.tsx''
           (world_with ''/srv/temp/job-1.tsx''
              ''export const compositionConfig = { fps: 24, /* c */ };''))
     = Inr \<lparr> id' = JStr ''job-1'', durationInSeconds = JNum (Fin 5), fps = JNum (Fin 24),
             width = JNum (Fin 1080), height = JNum (Fin 1920), defaultProps = JObj [] \<rparr>"
proof -
  let ?p = "''/srv/temp/job-1.tsx''"
  let ?text = "''export const compositionConfig = { fps: 24, /* c */ };''"
  have r: "readFile example_env ?p (world_with ?p ?text) = (Inr ?text, world_with ?p ?text)"
    by (simp add: readFile_def example_env_def world_with_def)
  have m: "configMatch ?text = Some ''{ fps: 24, /* c */ }''"
    by code_simp
  have e: "eval_source ''{ fps: 24, /* c */ }'' = ''({ fps: 24  })''"
    by code_simp
  have b: "basename ?p ''.tsx'' = ''job-1''"
    by code_simp
  have v: "js_eval example_env ''({ fps: 24  })'' = Inr (JObj [(''fps'', JNum (Fin 24))])"
    by (simp add: example_env_def eval_table_def)
  show ?thesis
    using extractCompositionConfig_eval [OF r]
    by (simp add: m e b v world_with_def sum_bind_def backfill_def js_or_def
        DEFAULTS_fps_def DEFAULTS_width_def DEFAULTS_height_def DEFAULTS_durationInSeconds_def)
qed

subsection \<open>Backfilling after a successful evaluation\<close>











subsection \<open>The fallback after a failed evaluation\<close>












section \<open>Properties of paths and of the directory name\<close>

definition plain_name :: "string \<Rightarrow> bool" where
  \<comment> \<open>one path segment that \<^verbatim>\<open>path.join\<close> keeps as it is\<close>
  "plain_name n = (n \<noteq> [] \<and> CHR ''/'' \<notin> set n \<and> n \<noteq> ''.'' \<and> n \<noteq> ''..'')"

definition dir_prefix :: "string \<Rightarrow> string" where
  \<comment> \<open>what \<^verbatim>\<open>path.join(a, n)\<close> puts before a plain name \<open>n\<close>\<close>
  "dir_prefix a =
     (if a = [] then []
      else (let segs = normalize_segs (hd a \<noteq> CHR ''/'') (split_on CHR ''/'' a) []
            in (if hd a = CHR ''/'' then ''/'' else [])
               @ (if segs = [] then [] else join_with ''/'' segs @ ''/'')))"

lemma split_on_nonempty: "split_on c s \<noteq> []"
  by (induction s) (auto split: list.splits)

lemma split_on_append: "split_on c (xs @ c # ys) = split_on c xs @ split_on c ys"
proof (induction xs)
  case Nil
  then show ?case by simp
next
  case (Cons x xs)
  then show ?case
    using split_on_nonempty [of c xs] by (cases "split_on c xs") auto
qed

lemma split_on_no_sep: "c \<notin> set n \<Longrightarrow> split_on c n = [n]"
  by (induction n) auto

lemma normalize_segs_append:
  "normalize_segs a (xs @ ys) acc = normalize_segs a ys (rev (normalize_segs a xs acc))"
  by (induction xs arbitrary: acc) (auto split: list.splits)

lemma normalize_segs_plain:
  assumes "plain_name n"
  shows "normalize_segs a (xs @ [n]) [] = normalize_segs a xs [] @ [n]"
  using assms by (simp add: normalize_segs_append plain_name_def)

lemma join_with_snoc:
  "join_with sep (xs @ [n]) = (if xs = [] then n else join_with sep xs @ sep @ n)"
  by (induction sep xs rule: join_with.induct) auto

lemma path_join_plain:
  assumes "plain_name n"
  shows "path_join [a, n] = dir_prefix a @ n"
proof (cases "a = []")
  case True
  from assms have n: "n \<noteq> []" "CHR ''/'' \<notin> set n" "hd n \<noteq> CHR ''/''" "last n \<noteq> CHR ''/''"
    by (auto simp: plain_name_def dest: hd_in_set last_in_set)
  have "normalize_segs True (split_on CHR ''/'' n) [] = [n]"
    using normalize_segs_plain [OF assms, of True "[]"] n by (simp add: split_on_no_sep)
  then show ?thesis
    using True n by (simp add: path_join_def path_normalize_def dir_prefix_def)
next
  case False
  from assms have n: "n \<noteq> []" "CHR ''/'' \<notin> set n" "last n \<noteq> CHR ''/''"
    by (auto simp: plain_name_def dest: last_in_set)
  let ?p = "a @ ''/'' @ n"
  let ?segs = "normalize_segs (hd a \<noteq> CHR ''/'') (split_on CHR ''/'' a) []"
  have j: "path_join [a, n] = path_normalize ?p"
    using False n by (simp add: path_join_def)
  have s: "split_on CHR ''/'' ?p = split_on CHR ''/'' a @ [n]"
    using n by (simp add: split_on_append split_on_no_sep)
  have h: "hd ?p = hd a" "last ?p = last n" "?p \<noteq> []"
    using False n by auto
  have b: "join_with ''/'' (?segs @ [n]) \<noteq> []"
    using n by (simp add: join_with_snoc)
  show ?thesis
    unfolding j path_normalize_def Let_def h s normalize_segs_plain [OF assms]
    using False n b by (simp add: dir_prefix_def Let_def join_with_snoc)
qed

lemma path_join_plain_inject:
  assumes "plain_name n" "plain_name m"
  shows "path_join [a, n] = path_join [a, m] \<longleftrightarrow> n = m"
  by (simp add: path_join_plain assms)

lemma path_normalize_nonempty: "path_normalize p \<noteq> []"
  by (simp add: path_normalize_def Let_def)

lemma path_join_nonempty: "path_join args \<noteq> []"
  by (simp add: path_join_def path_normalize_nonempty)

lemma digit_char:
  assumes "k < 10"
  shows "is_digit (digit_of k) \<and> digit_value (digit_of k) = k"
proof -
  from assms have "k \<in> {0, 1, 2, 3, 4, 5, 6, 7, 8, 9}" by auto
  then show ?thesis
    by (auto simp: digit_of_def is_digit_def digit_value_def less_eq_char_def)
qed

lemma digits_value_snoc:
  "digits_value r (ds @ [c]) = r * digits_value r ds + digit_value c"
  by (simp add: digits_value_def)

lemma digits_value_nat_digits: "digits_value 10 (nat_digits n) = n"
proof (induction n rule: nat_digits.induct)
  case (1 n)
  show ?case
  proof (cases "n < 10")
    case True
    then show ?thesis
      using digit_char [of n] by (subst nat_digits.simps) (simp add: digits_value_def)
  next
    case False
    have "digit_value (digit_of (n mod 10)) = n mod 10"
      using digit_char [of "n mod 10"] by simp
    with False 1 show ?thesis
      by (subst nat_digits.simps) (simp add: digits_value_snoc)
  qed
qed

lemma nat_digits_inject: "nat_digits n = nat_digits m \<longleftrightarrow> n = m"
  by (metis digits_value_nat_digits)

lemma nat_digits_digits: "c \<in> set (nat_digits n) \<Longrightarrow> is_digit c"
proof (induction n rule: nat_digits.induct)
  case (1 n)
  show ?case
  proof (cases "n < 10")
    case True
    with 1(2) show ?thesis
      using digit_char [of n] by (subst (asm) nat_digits.simps) simp
  next
    case False
    with 1 show ?thesis
      using digit_char [of "n mod 10"] by (subst (asm) nat_digits.simps) auto
  qed
qed

lemma nat_digits_nonempty: "nat_digits n \<noteq> []"
  by (subst nat_digits.simps) simp

lemma plain_render_name: "plain_name (''remotion-render-'' @ nat_digits n)"
proof -
  have "CHR ''/'' \<notin> set (nat_digits n)"
    using nat_digits_digits [of "CHR ''/''" n] by (auto simp: is_digit_def)
  then show ?thesis by (simp add: plain_name_def)
qed

lemma tempDir_name_eq:
  "tempDir_name env = dir_prefix (os_tmpdir env) @ ''remotion-render-'' @ nat_digits (Date_now env)"
  unfolding tempDir_name_def by (subst path_join_plain [OF plain_render_name]) simp

text \<open>
  C7 as stated fails: the name of the directory is made from the clock alone. Two jobs
  with different job ids that reach \<^verbatim>\<open>createTempProject\<close> in the same millisecond get the
  same directory.
\<close>

theorem tempDir_collision:
  "randomUUID example_env \<noteq> randomUUID (example_env\<lparr>randomUUID := ''job-2''\<rparr>)
   \<and> tempDir_name example_env = ''/tmp/remotion-render-1700000000000''
   \<and> tempDir_name (example_env\<lparr>randomUUID := ''job-2''\<rparr>) = ''/tmp/remotion-render-1700000000000''"
proof -
  have d: "nat_digits 1700000000000 = ''1700000000000''"
    by (simp add: nat_digits.simps digit_of_def)
  have p: "dir_prefix ''/tmp'' = ''/tmp/''"
    by (simp add: dir_prefix_def)
  show ?thesis
    by (simp add: tempDir_name_eq example_env_def d p)
qed

text \<open>
  C7, amended. The temporary project directories of two render jobs (on one host, so
  with the same \<^verbatim>\<open>os.tmpdir()\<close>) are distinct exactly when the two calls of
  \<^verbatim>\<open>createTempProject\<close> read different values of \<^verbatim>\<open>Date.now()\<close>; the job id plays no part
  in the name, so two jobs that reach the call in the same millisecond share one directory.
\<close>

theorem tempDir_name_distinct:
  assumes "os_tmpdir env1 = os_tmpdir env2"
  shows "tempDir_name env1 \<noteq> tempDir_name env2 \<longleftrightarrow> Date_now env1 \<noteq> Date_now env2"
  by (simp add: tempDir_name_eq assms nat_digits_inject)

theorem tempDir_name_distinct_witness:
  "tempDir_name example_env \<noteq> tempDir_name (example_env\<lparr>Date_now := 1700000000001\<rparr>)"
proof -
  have "os_tmpdir example_env = os_tmpdir (example_env\<lparr>Date_now := 1700000000001\<rparr>)"
    by simp
  from tempDir_name_distinct [OF this] show ?thesis
    by (simp add: example_env_def)
qed

section \<open>Properties of the reaper\<close>

lemma io_bind_Inr:
  "io_bind m f w = (Inr y, w') \<longleftrightarrow> (\<exists>x w1. m w = (Inr x, w1) \<and> f x w1 = (Inr y, w'))"
  by (auto simp: io_bind_def split: prod.splits sum.splits)

lemma io_bind_Inl:
  "io_bind m f w = (Inl e, w') \<longleftrightarrow>
     m w = (Inl e, w') \<or> (\<exists>x w1. m w = (Inr x, w1) \<and> f x w1 = (Inl e, w'))"
  by (auto simp: io_bind_def split: prod.splits sum.splits)

lemma sweep_file_fails_unchanged:
  assumes "sweep_file env p w = (Inl err, w')"
  shows "w' = w"
  using assms
  by (auto simp: sweep_file_def io_bind_Inl stat_def unlink_def io_return_def
           split: option.splits if_splits)

lemma sweep_files_append:
  "sweep_files env dir (pre @ post) =
     io_bind (sweep_files env dir pre) (\<lambda>_. sweep_files env dir post)"
proof (induction pre)
  case Nil
  show ?case by (rule ext) (simp add: io_bind_def io_return_def)
next
  case (Cons f pre)
  show ?case
    by (rule ext) (simp add: Cons io_bind_def split: prod.splits sum.splits)
qed

definition reaper_env :: env where
  \<comment> \<open>as \<open>example_env\<close>, but \<^verbatim>\<open>stat\<close> fails on one file of the temp directory\<close>
  "reaper_env =
     example_env\<lparr>fs_fault :=
       (\<lambda>op. if op = Stat ''/srv/temp/a.tsx'' then Some ''EACCES'' else None)\<rparr>"

definition reaper_world :: world where
  \<comment> \<open>three files, all of them older than an hour at the time of \<open>example_env\<close>\<close>
  "reaper_world =
     \<lparr> files = [(''/srv/temp/a.tsx'', \<lparr>file_content = ''a'', mtimeMs = 0\<rparr>),
               (''/srv/temp/b.tsx'', \<lparr>file_content = ''b'', mtimeMs = 1\<rparr>),
               (''/srv/outputs/c.mp4'', \<lparr>file_content = ''c'', mtimeMs = 5\<rparr>)],
       dirs = [''/srv/temp'', ''/srv/outputs''],
       trace = [] \<rparr>"

lemma example_dirs:
  "TEMP_DIR example_env = ''/srv/temp''" "OUTPUT_DIR example_env = ''/srv/outputs''"
  "TEMP_DIR reaper_env = ''/srv/temp''" "OUTPUT_DIR reaper_env = ''/srv/outputs''"
  by (simp_all add: TEMP_DIR_def OUTPUT_DIR_def example_env_def reaper_env_def path_join_def
      path_normalize_def)

text \<open>
  C8 as stated fails: \<^verbatim>\<open>stat\<close> fails on the first file of the temp directory, and the
  second file of that directory, which is stale and on which nothing fails, is still there
  after the sweep. The file of the output directory is deleted.
\<close>

theorem sweep_stops_at_failure:
  "files (cleanupOldFiles reaper_env reaper_world) =
     [(''/srv/temp/a.tsx'', \<lparr>file_content = ''a'', mtimeMs = 0\<rparr>),
      (''/srv/temp/b.tsx'', \<lparr>file_content = ''b'', mtimeMs = 1\<rparr>)]
   \<and> int (Date_now reaper_env) - 1 > ONE_HOUR
   \<and> fs_fault reaper_env (Stat ''/srv/temp/b.tsx'') = None
   \<and> fs_fault reaper_env (Unlink ''/srv/temp/b.tsx'') = None
   \<and> trace (cleanupOldFiles reaper_env reaper_world) = [Logged ''Cleanup error in /srv/temp: EACCES'']"
proof -
  define w1 where "w1 = record_event (Logged ''Cleanup error in /srv/temp: EACCES'') reaper_world"
  have j: "path_join [''/srv/temp'', ''a.tsx''] = ''/srv/temp/a.tsx''"
    "path_join [''/srv/outputs'', ''c.mp4''] = ''/srv/outputs/c.mp4''"
    by (simp_all add: path_join_def path_normalize_def)
  have r1: "readdir reaper_env ''/srv/temp'' reaper_world = (Inr [''a.tsx'', ''b.tsx''], reaper_world)"
    by (simp add: readdir_def reaper_env_def reaper_world_def inside_def)
  have s1: "sweep_file reaper_env ''/srv/temp/a.tsx'' reaper_world = (Inl ''EACCES'', reaper_world)"
    by (simp add: sweep_file_def io_bind_def stat_def reaper_env_def)
  have d1: "sweep_dir reaper_env ''/srv/temp'' reaper_world = w1"
    by (simp add: sweep_dir_def io_bind_def r1 j s1 w1_def)
  have f1: "files w1 = files reaper_world" "trace w1 = [Logged ''Cleanup error in /srv/temp: EACCES'']"
    "dirs w1 = dirs reaper_world"
    by (simp_all add: w1_def record_event_def reaper_world_def)
  have r2: "readdir reaper_env ''/srv/outputs'' w1 = (Inr [''c.mp4''], w1)"
    by (simp add: readdir_def reaper_env_def f1 reaper_world_def inside_def)
  have t: "int (Date_now reaper_env) - 5 > ONE_HOUR" "int (Date_now reaper_env) - 1 > ONE_HOUR"
    by (simp_all add: reaper_env_def example_env_def ONE_HOUR_def)
  have s2: "sweep_file reaper_env ''/srv/outputs/c.mp4'' w1 =
      (Inr (), w1\<lparr>files := [(''/srv/temp/a.tsx'', \<lparr>file_content = ''a'', mtimeMs = 0\<rparr>),
                              (''/srv/temp/b.tsx'', \<lparr>file_content = ''b'', mtimeMs = 1\<rparr>)]\<rparr>)"
    using t(1)
    by (simp add: sweep_file_def io_bind_def stat_def unlink_def reaper_env_def f1 reaper_world_def)
  have d2: "sweep_dir reaper_env ''/srv/outputs'' w1 =
      w1\<lparr>files := [(''/srv/temp/a.tsx'', \<lparr>file_content = ''a'', mtimeMs = 0\<rparr>),
                     (''/srv/temp/b.tsx'', \<lparr>file_content = ''b'', mtimeMs = 1\<rparr>)]\<rparr>"
    by (simp add: sweep_dir_def io_bind_def r2 j s2 io_return_def)
  have c: "cleanupOldFiles reaper_env reaper_world =
      w1\<lparr>files := [(''/srv/temp/a.tsx'', \<lparr>file_content = ''a'', mtimeMs = 0\<rparr>),
                     (''/srv/temp/b.tsx'', \<lparr>file_content = ''b'', mtimeMs = 1\<rparr>)]\<rparr>"
    by (simp add: cleanupOldFiles_def example_dirs d1 d2)
  have n: "fs_fault reaper_env (Stat ''/srv/temp/b.tsx'') = None"
    "fs_fault reaper_env (Unlink ''/srv/temp/b.tsx'') = None"
    by (simp_all add: reaper_env_def)
  show ?thesis
    unfolding c using t(2) n f1(2) by simp
qed

text \<open>
  C8, amended. During a sweep, a failure to stat or delete one file ends the sweep of the
  directory that holds it: the files listed after it in that directory are not examined in
  this sweep and stay as they are. The failure is only logged, never raised, and the other
  storage area is still swept.
\<close>

theorem sweep_dir_failure:
  assumes "readdir env dir w = (Inr (pre @ f # post), w)"
    and "sweep_files env dir pre w = (Inr (), w1)"
    and "sweep_file env (path_join [dir, f]) w1 = (Inl err, w2)"
  shows "sweep_dir env dir w = record_event (Logged (''Cleanup error in '' @ dir @ '': '' @ err)) w1
         \<and> files (sweep_dir env dir w) = files w1
         \<and> cleanupOldFiles env w =
             sweep_dir env (OUTPUT_DIR env) (sweep_dir env (TEMP_DIR env) w)"
proof -
  from assms(3) have w2: "w2 = w1" by (rule sweep_file_fails_unchanged)
  have "sweep_files env dir (pre @ f # post) w = (Inl err, w1)"
    using assms(2,3) unfolding w2 sweep_files_append
    by (simp add: io_bind_def)
  then have "sweep_dir env dir w =
      record_event (Logged (''Cleanup error in '' @ dir @ '': '' @ err)) w1"
    using assms(1) by (simp add: sweep_dir_def io_bind_def)
  then show ?thesis
    by (simp add: record_event_def cleanupOldFiles_def)
qed

theorem sweep_dir_failure_witness:
  "sweep_dir reaper_env ''/srv/temp'' reaper_world =
     record_event (Logged ''Cleanup error in /srv/temp: EACCES'') reaper_world
   \<and> files (sweep_dir reaper_env ''/srv/temp'' reaper_world) = files reaper_world"
proof -
  have r: "readdir reaper_env ''/srv/temp'' reaper_world
             = (Inr ([] @ ''a.tsx'' # [''b.tsx'']), reaper_world)"
    by (simp add: readdir_def reaper_env_def reaper_world_def inside_def)
  have p: "sweep_files reaper_env ''/srv/temp'' [] reaper_world = (Inr (), reaper_world)"
    by (simp add: io_return_def)
  have j: "path_join [''/srv/temp'', ''a.tsx''] = ''/srv/temp/a.tsx''"
    by (simp add: path_join_def path_normalize_def)
  have s: "sweep_file reaper_env (path_join [''/srv/temp'', ''a.tsx'']) reaper_world
             = (Inl ''EACCES'', reaper_world)"
    unfolding j by (simp add: sweep_file_def io_bind_def stat_def reaper_env_def)
  from sweep_dir_failure [OF r p s] show ?thesis
    by (simp add: record_event_def)
qed

section \<open>Properties of the temporary project and of the handler\<close>

lemma createTempProject_returns:
  assumes "createTempProject env p cfg w = (Inr d, w')"
  shows "d = tempDir_name env"
  using assms
  by (auto simp: createTempProject_def Let_def io_bind_Inr io_return_def)

lemma render_try_tempProjectDir:
  assumes "render_try env tsx p name out w = (result, Some d, w1)"
  shows "d = tempDir_name env"
  using assms
  by (auto simp: render_try_def split: prod.splits sum.splits dest: createTempProject_returns)

lemma tempDir_name_nonempty: "tempDir_name env \<noteq> []"
  by (simp add: tempDir_name_def path_join_nonempty)

lemma map_of_filter_fst:
  "map_of (filter (\<lambda>e. P (fst e)) xs) k = (if P k then map_of xs k else None)"
  by (induction xs) auto

lemma cleanupTempProject_removes:
  assumes "fs_fault env (Rm d) = None" and "d \<noteq> []"
  shows "\<not> existsSync (cleanupTempProject env d w) d"
  using assms
  by (auto simp: cleanupTempProject_def rmSync_def existsSync_def
        map_of_filter_fst [where P = "\<lambda>q. q \<noteq> d \<and> \<not> inside d q"])

lemma cleanupTempProject_removes_below:
  assumes "fs_fault env (Rm d) = None" and "d \<noteq> []" and "existsSync w d" and "inside d p"
  shows "\<not> existsSync (cleanupTempProject env d w) p"
  using assms
  by (auto simp: cleanupTempProject_def rmSync_def existsSync_def
        map_of_filter_fst [where P = "\<lambda>q. q \<noteq> d \<and> \<not> inside d q"])

lemma io_bind_dirs:
  assumes "\<And>w. dirs (snd (m w)) = dirs w" and "\<And>x w. dirs (snd (f x w)) = dirs w"
  shows "dirs (snd (io_bind m f w)) = dirs w"
  using assms(1) [of w] assms(2)
  by (cases "m w") (auto simp: io_bind_def split: sum.splits)

lemma prim_dirs [simp]:
  "dirs (snd (readFile env p w)) = dirs w"
  "dirs (snd (writeFile env p data w)) = dirs w"
  "dirs (snd (unlink env p w)) = dirs w"
  "dirs (snd (call_ensureBrowser env w)) = dirs w"
  "dirs (snd (call_bundle env entry modules w)) = dirs w"
  "dirs (snd (call_selectComposition env u i w)) = dirs w"
  "dirs (snd (call_renderMedia env req w)) = dirs w"
  "dirs (snd (io_of r w)) = dirs w"
  "dirs (snd (io_return x w)) = dirs w"
  "dirs (record_event ev w) = dirs w"
  by (auto simp: readFile_def writeFile_def unlink_def call_ensureBrowser_def call_bundle_def
      call_selectComposition_def call_renderMedia_def io_of_def io_return_def record_event_def
      split: option.splits sum.splits)

lemma render_steps_dirs: "dirs (snd (render_steps env cfg d p name out w)) = dirs w"
  unfolding render_steps_def Let_def
  by (intro io_bind_dirs prim_dirs)

lemma catch_cleanup_dirs: "dirs (catch_cleanup env p out w) = dirs w"
proof -
  have "dirs (snd (io_bind (if existsSync w p then unlink env p else io_return ())
             (\<lambda>_ w1. if existsSync w1 out then unlink env out w1 else io_return () w1) w')) = dirs w'" for w'
    by (intro io_bind_dirs) (auto simp: prim_dirs)
  from this [of w] show ?thesis
    by (auto simp: catch_cleanup_def split: prod.splits sum.splits)
qed

lemma mkdirSync_Inr: "mkdirSync env p w = (Inr u, w') \<Longrightarrow> dirs w' = List.insert p (dirs w)"
  by (auto simp: mkdirSync_def split: option.splits)

lemma detectExportStyle_file_dirs [simp]:
  "dirs (snd (detectExportStyle_file env p w)) = dirs w"
  unfolding detectExportStyle_file_def by (intro io_bind_dirs prim_dirs)

lemma createTempProject_dir:
  assumes "createTempProject env p cfg w = (Inr d, w')"
  shows "d \<in> set (dirs w')"
proof -
  let ?rest = "\<lambda>exportStyle.
        let tsxFileUrl = map (\<lambda>c. if c = CHR 0x5C then CHR ''/'' else c) p;
            componentName = ''UserComponent'';
            importStatement = import_statement exportStyle componentName tsxFileUrl;
            frames = frames_of env cfg
        in
        io_bind (writeFile env (path_join [path_join [tempDir_name env, ''src''], ''index.ts'']) indexTs) (\<lambda>_.
        io_bind (writeFile env (path_join [path_join [tempDir_name env, ''src''], ''Root.tsx''])
                   (rootTsx env importStatement componentName cfg frames)) (\<lambda>_.
        io_bind (writeFile env (path_join [tempDir_name env, ''tsconfig.json'']) tsconfig_json) (\<lambda>_.
        io_bind (writeFile env (path_join [tempDir_name env, ''remotion.config.ts'']) remotionConfig) (\<lambda>_.
        io_return (tempDir_name env)))))"
  let ?tail = "io_bind (detectExportStyle_file env p) ?rest"
  have t: "dirs (snd (?tail w0)) = dirs w0" for w0
    unfolding Let_def by (intro io_bind_dirs prim_dirs detectExportStyle_file_dirs)
  from assms obtain u1 w1 u2 w2 where
    1: "mkdirSync env (tempDir_name env) w = (Inr u1, w1)"
    and 2: "mkdirSync env (path_join [tempDir_name env, ''src'']) w1 = (Inr u2, w2)"
    and 3: "?tail w2 = (Inr d, w')"
    unfolding createTempProject_def Let_def
    by (auto simp: io_bind_Inr [of "mkdirSync env (tempDir_name env)"]
          io_bind_Inr [of "mkdirSync env (path_join [tempDir_name env, ''src''])"])
  from t [of w2] 3 have "dirs w' = dirs w2" by simp
  moreover from 1 2 have "tempDir_name env \<in> set (dirs w2)"
    by (auto dest!: mkdirSync_Inr)
  moreover have "d = tempDir_name env"
    using assms by (rule createTempProject_returns)
  ultimately show ?thesis by simp
qed

lemma render_try_dir:
  assumes "render_try env tsx p name out w = (result, Some d, w1)"
  shows "d \<in> set (dirs w1)"
proof -
  from assms obtain cfg w3 w4 where c: "createTempProject env p cfg w3 = (Inr d, w4)"
    and r: "render_steps env cfg d p name out w4 = (result, w1)"
    by (auto simp: render_try_def split: prod.splits sum.splits)
  from r render_steps_dirs [of env cfg d p name out w4] have "dirs w1 = dirs w4" by simp
  with createTempProject_dir [OF c] show ?thesis by simp
qed

lemma render_job_finally:
  assumes "render_try env tsx p name out w = (result, Some d, w1)"
  shows "\<exists>w2. snd (render_job env jobId tsx p name out w) = cleanupTempProject env d w2
              \<and> dirs w2 = dirs w1"
  using assms
  by (auto simp: render_job_def Let_def catch_cleanup_dirs split: sum.splits)

text \<open>
  C2, amended. For every render job in which \<^verbatim>\<open>createTempProject\<close> returned the
  directory (so that \<^verbatim>\<open>tempProjectDir\<close> is set), the \<^verbatim>\<open>finally\<close> block runs
  \<^verbatim>\<open>cleanupTempProject\<close> on it whether the \<^verbatim>\<open>try\<close> block returned or threw, and neither
  the directory nor anything below it exists after the job, provided the recursive removal
  does not fail. An error of the removal is caught and ignored, and then the directory
  stays.
\<close>

theorem project_dir_removed:
  assumes "render_try env tsx p name out w = (result, Some d, w1)"
    and "fs_fault env (Rm d) = None"
  shows "\<not> existsSync (snd (render_job env jobId tsx p name out w)) d
         \<and> (\<forall>q. inside d q \<longrightarrow> \<not> existsSync (snd (render_job env jobId tsx p name out w)) q)"
proof -
  from assms(1) have d: "d \<noteq> []"
    using render_try_tempProjectDir tempDir_name_nonempty by metis
  obtain w2 where w2: "snd (render_job env jobId tsx p name out w) = cleanupTempProject env d w2"
    and "dirs w2 = dirs w1"
    using render_job_finally [OF assms(1)] by blast
  with render_try_dir [OF assms(1)] have e: "existsSync w2 d"
    by (simp add: existsSync_def)
  show ?thesis
    unfolding w2
    using cleanupTempProject_removes [OF assms(2) d]
      cleanupTempProject_removes_below [OF assms(2) d e]
    by blast
qed

section \<open>A concrete job\<close>

definition good_tsx :: string where
  "good_tsx = ''export const compositionConfig = { id: 'demo', fps: 24, width: 640, height: 480, durationInSeconds: 2 };
export default function Demo() { return null; }''"

definition rm_env :: "string option \<Rightarrow> env" where
  \<comment> \<open>\<open>example_env\<close>, with the given outcome for the removal of the project directory\<close>
  "rm_env r =
     example_env\<lparr>fs_fault :=
       (\<lambda>op. if op = Rm ''/tmp/remotion-render-1700000000000'' then r else None)\<rparr>"

definition staged_world :: "event list \<Rightarrow> world" where
  \<comment> \<open>the source file of the job is written, nothing else\<close>
  "staged_world t =
     \<lparr> files = [(''/srv/temp/job-1.tsx'',
                 \<lparr>file_content = good_tsx, mtimeMs = 1700000000000\<rparr>)],
       dirs = [''/srv/temp'', ''/srv/outputs''],
       trace = t \<rparr>"

definition project_files :: "env \<Rightarrow> config \<Rightarrow> (string \<times> fs_file) list" where
  \<comment> \<open>the four files of the temporary project, the last written first\<close>
  "project_files env cfg =
     [(''/tmp/remotion-render-1700000000000/remotion.config.ts'',
       \<lparr>file_content = remotionConfig, mtimeMs = 1700000000000\<rparr>),
      (''/tmp/remotion-render-1700000000000/tsconfig.json'',
       \<lparr>file_content = tsconfig_json, mtimeMs = 1700000000000\<rparr>),
      (''/tmp/remotion-render-1700000000000/src/Root.tsx'',
       \<lparr>file_content =
          rootTsx env (import_statement DefaultExport ''UserComponent'' ''/srv/temp/job-1.tsx'')
            ''UserComponent'' cfg (frames_of env cfg),
        mtimeMs = 1700000000000\<rparr>),
      (''/tmp/remotion-render-1700000000000/src/index.ts'',
       \<lparr>file_content = indexTs, mtimeMs = 1700000000000\<rparr>)]"

definition project_world :: "env \<Rightarrow> config \<Rightarrow> event list \<Rightarrow> world" where
  \<comment> \<open>the state after \<^verbatim>\<open>createTempProject\<close>\<close>
  "project_world env cfg t =
     \<lparr> files = project_files env cfg
               @ [(''/srv/temp/job-1.tsx'',
                   \<lparr>file_content = good_tsx, mtimeMs = 1700000000000\<rparr>)],
       dirs = [''/tmp/remotion-render-1700000000000/src'', ''/tmp/remotion-render-1700000000000'',
               ''/srv/temp'', ''/srv/outputs''],
       trace = t \<rparr>"

lemma rm_env_fields [simp]:
  "js_eval (rm_env r) = js_eval example_env"
  "string_of_other (rm_env r) = string_of_other example_env"
  "number_of_other (rm_env r) = number_of_other example_env"
  "JSON_stringify (rm_env r) = JSON_stringify example_env"
  "ensureBrowser (rm_env r) = None"
  "bundler (rm_env r) = (\<lambda>entry modules. Inr ''/tmp/bundle'')"
  "selectComposition (rm_env r) = (\<lambda>url i. Inr (JObj [(''id'', i)]))"
  "renderMedia (rm_env r) = (\<lambda>req. Inr ''mp4-bytes'')"
  "Date_now (rm_env r) = 1700000000000"
  "os_tmpdir (rm_env r) = ''/tmp''"
  "dirname (rm_env r) = ''/srv''"
  "randomUUID (rm_env r) = ''job-1''"
  "fs_fault (rm_env r) (ReadFile p) = None"
  "fs_fault (rm_env r) (WriteFile p) = None"
  "fs_fault (rm_env r) (Unlink p) = None"
  "fs_fault (rm_env r) (Mkdir p) = None"
  "fs_fault (rm_env r) (Rm ''/tmp/remotion-render-1700000000000'') = r"
  by (simp_all add: rm_env_def example_env_def)

lemma rm_env_None: "rm_env None = example_env"
  by (simp add: rm_env_def example_env_def)

lemma job_paths:
  "TEMP_DIR (rm_env r) = ''/srv/temp''"
  "OUTPUT_DIR (rm_env r) = ''/srv/outputs''"
  "path_join [''/srv/temp'', ''job-1.tsx''] = ''/srv/temp/job-1.tsx''"
  "path_join [''/srv/outputs'', ''../clip.mov''] = ''/srv/clip.mov''"
  "path_join [''/srv'', ''node_modules''] = ''/srv/node_modules''"
  "tempDir_name (rm_env r) = ''/tmp/remotion-render-1700000000000''"
  "path_join [''/tmp/remotion-render-1700000000000'', ''src'']
     = ''/tmp/remotion-render-1700000000000/src''"
  "path_join [''/tmp/remotion-render-1700000000000/src'', ''index.ts'']
     = ''/tmp/remotion-render-1700000000000/src/index.ts''"
  "path_join [''/tmp/remotion-render-1700000000000/src'', ''Root.tsx'']
     = ''/tmp/remotion-render-1700000000000/src/Root.tsx''"
  "path_join [''/tmp/remotion-render-1700000000000'', ''tsconfig.json'']
     = ''/tmp/remotion-render-1700000000000/tsconfig.json''"
  "path_join [''/tmp/remotion-render-1700000000000'', ''remotion.config.ts'']
     = ''/tmp/remotion-render-1700000000000/remotion.config.ts''"
  "path_join [''/tmp/remotion-render-1700000000000'', ''src'', ''index.ts'']
     = ''/tmp/remotion-render-1700000000000/src/index.ts''"
  by (simp_all add: TEMP_DIR_def OUTPUT_DIR_def tempDir_name_def path_join_def
      path_normalize_def nat_digits.simps digit_of_def)

lemma good_tsx_facts:
  "configMatch good_tsx
     = Some ''{ id: 'demo', fps: 24, width: 640, height: 480, durationInSeconds: 2 }''"
  "eval_source ''{ id: 'demo', fps: 24, width: 640, height: 480, durationInSeconds: 2 }''
     = ''({ id: 'demo', fps: 24, width: 640, height: 480, durationInSeconds: 2 })''"
  "basename ''/srv/temp/job-1.tsx'' ''.tsx'' = ''job-1''"
  "detectExportStyle ''job-1'' good_tsx = DefaultExport"
  "map (\<lambda>c. if c = CHR 0x5C then CHR ''/'' else c) ''/srv/temp/job-1.tsx'' = ''/srv/temp/job-1.tsx''"
  by code_simp+

lemma good_tsx_size: "good_tsx \<noteq> []" "\<not> length good_tsx > MAX_TSX_SIZE"
  by (simp_all add: good_tsx_def MAX_TSX_SIZE_def)

definition start_world :: world where
  "start_world = \<lparr> files = [], dirs = [''/srv/temp'', ''/srv/outputs''], trace = [] \<rparr>"

definition demo_config :: config where
  "demo_config =
     \<lparr> id' = JStr ''demo'', durationInSeconds = JNum (Fin 2), fps = JNum (Fin 24),
       width = JNum (Fin 640), height = JNum (Fin 480), defaultProps = JObj [] \<rparr>"

definition render_events :: "env \<Rightarrow> config \<Rightarrow> event list" where
  \<comment> \<open>the external calls of the job from the bundling on\<close>
  "render_events env cfg =
     [Called (Bundle ''/tmp/remotion-render-1700000000000/src/index.ts'' ''/srv/node_modules''),
      Called (SelectComposition ''/tmp/bundle'' (id' cfg)),
      Called (RenderMedia
                \<lparr> composition = JObj [(''id'', id' cfg)],
                  durationInFrames = frames_of env cfg,
                  fps_arg = fps cfg,
                  width_arg = width cfg,
                  height_arg = height cfg,
                  serveUrl = ''/tmp/bundle'',
                  codec = ''h264'',
                  outputLocation = ''/srv/clip.mov'' \<rparr>)]"

definition rendered_world :: "env \<Rightarrow> config \<Rightarrow> event list \<Rightarrow> world" where
  \<comment> \<open>the state when the \<^verbatim>\<open>try\<close> block has sent the video\<close>
  "rendered_world env cfg t =
     \<lparr> files = (''/srv/clip.mov'', \<lparr>file_content = ''mp4-bytes'', mtimeMs = 1700000000000\<rparr>)
               # project_files env cfg,
       dirs = [''/tmp/remotion-render-1700000000000/src'', ''/tmp/remotion-render-1700000000000'',
               ''/srv/temp'', ''/srv/outputs''],
       trace = t \<rparr>"

lemma run_write:
  "writeFile (rm_env r) ''/srv/temp/job-1.tsx'' good_tsx start_world = (Inr (), staged_world [])"
  by (simp add: writeFile_def start_world_def staged_world_def)

lemma run_extract:
  "extractCompositionConfig (rm_env r) ''/srv/temp/job-1.tsx'' (staged_world t) =
     (Inr demo_config,
      staged_world (t @ [Evaluated
        ''({ id: 'demo', fps: 24, width: 640, height: 480, durationInSeconds: 2 })'']))"
proof -
  have r: "readFile (rm_env r) ''/srv/temp/job-1.tsx'' (staged_world t)
             = (Inr good_tsx, staged_world t)"
    by (simp add: readFile_def staged_world_def)
  have v: "js_eval example_env
             ''({ id: 'demo', fps: 24, width: 640, height: 480, durationInSeconds: 2 })''
           = Inr (JObj [(''id'', JStr ''demo''), (''fps'', JNum (Fin 24)),
                        (''width'', JNum (Fin 640)), (''height'', JNum (Fin 480)),
                        (''durationInSeconds'', JNum (Fin 2))])"
    by (simp add: example_env_def eval_table_def)
  show ?thesis
    unfolding extractCompositionConfig_run [OF r]
    by (simp add: good_tsx_facts v config_from_literal_def sum_bind_def backfill_def js_or_def
        demo_config_def record_event_def staged_world_def)
qed

lemma run_browser:
  "call_ensureBrowser (rm_env r) (staged_world t)
     = (Inr (), staged_world (t @ [Called EnsureBrowser]))"
  by (simp add: call_ensureBrowser_def record_event_def staged_world_def)

lemma run_project:
  "createTempProject (rm_env r) ''/srv/temp/job-1.tsx'' cfg (staged_world t)
     = (Inr ''/tmp/remotion-render-1700000000000'', project_world (rm_env r) cfg t)"
  by (simp add: createTempProject_def Let_def job_paths io_bind_def mkdirSync_def
      detectExportStyle_file_def readFile_def io_return_def good_tsx_facts writeFile_def
      staged_world_def project_world_def project_files_def)

lemma run_steps:
  "render_steps (rm_env r) cfg ''/tmp/remotion-render-1700000000000'' ''/srv/temp/job-1.tsx''
       ''../clip.mov'' ''/srv/clip.mov'' (project_world (rm_env r) cfg t)
     = (Inr (video_reply ''../clip.mov'' ''mp4-bytes''),
        rendered_world (rm_env r) cfg (t @ render_events (rm_env r) cfg))"
  by (simp add: render_steps_def Let_def job_paths io_bind_def call_bundle_def
      call_selectComposition_def io_of_def call_renderMedia_def unlink_def readFile_def
      io_return_def record_event_def project_world_def project_files_def rendered_world_def
      render_events_def)

lemma run_try:
  "render_try (rm_env r) good_tsx ''/srv/temp/job-1.tsx'' ''../clip.mov'' ''/srv/clip.mov''
       start_world
     = (Inr (video_reply ''../clip.mov'' ''mp4-bytes''),
        Some ''/tmp/remotion-render-1700000000000'',
        rendered_world (rm_env r) demo_config
          ([Evaluated ''({ id: 'demo', fps: 24, width: 640, height: 480, durationInSeconds: 2 })'',
            Called EnsureBrowser] @ render_events (rm_env r) demo_config))"
  using run_extract [of r "[]"] run_browser [of r] run_project [of r demo_config] run_steps [of r demo_config]
  by (simp add: render_try_def run_write)

section \<open>What the handler passes on: frames, output path, file name\<close>

definition emits :: "(event \<Rightarrow> bool) \<Rightarrow> 'a io \<Rightarrow> bool" where
  \<comment> \<open>a computation only adds events to the trace, and each one it adds satisfies \<open>P\<close>\<close>
  "emits P m = (\<forall>w. \<exists>new. trace (snd (m w)) = trace w @ new \<and> list_all P new)"

lemma emitsI:
  assumes "\<And>w. \<exists>new. trace (snd (m w)) = trace w @ new \<and> list_all P new"
  shows "emits P m"
  using assms by (simp add: emits_def)

lemma emitsD:
  assumes "emits P m" and "m w = (r, w')"
  shows "\<exists>new. trace w' = trace w @ new \<and> list_all P new"
  using assms by (auto simp: emits_def dest!: spec [of _ w])

lemma emits_silent:
  assumes "\<And>w. trace (snd (m w)) = trace w"
  shows "emits P m"
  using assms by (intro emitsI) simp

lemma emits_bind:
  assumes "emits P m" and "\<And>x. emits P (f x)"
  shows "emits P (io_bind m f)"
proof (rule emitsI)
  fix w
  obtain r w1 where m: "m w = (r, w1)" by (cases "m w")
  from emitsD [OF assms(1) m] obtain n1 where n1: "trace w1 = trace w @ n1" "list_all P n1"
    by blast
  show "\<exists>new. trace (snd (io_bind m f w)) = trace w @ new \<and> list_all P new"
  proof (cases r)
    case (Inl e)
    with m n1 show ?thesis by (auto simp: io_bind_def)
  next
    case (Inr x)
    obtain r2 w2 where f: "f x w1 = (r2, w2)" by (cases "f x w1")
    from emitsD [OF assms(2) f] obtain n2 where "trace w2 = trace w1 @ n2" "list_all P n2"
      by blast
    with m n1 Inr f have "trace (snd (io_bind m f w)) = trace w @ (n1 @ n2) \<and> list_all P (n1 @ n2)"
      by (simp add: io_bind_def)
    then show ?thesis by blast
  qed
qed

lemma emits_fs [intro!, simp]:
  "emits P (readFile env p)"
  "emits P (writeFile env p data)"
  "emits P (unlink env p)"
  "emits P (mkdirSync env p)"
  "emits P (io_of r)"
  "emits P (io_return x)"
  by (rule emits_silent;
      simp add: readFile_def writeFile_def unlink_def mkdirSync_def io_of_def io_return_def
        split: option.splits)+

lemma emits_event:
  assumes "\<And>w. \<exists>r w'. m w = (r, w') \<and> trace w' = trace w @ [e]" and "P e"
  shows "emits P m"
proof (rule emitsI)
  fix w
  from assms(1) [of w] obtain r w' where "m w = (r, w')" "trace w' = trace w @ [e]" by blast
  with assms(2) have "trace (snd (m w)) = trace w @ [e] \<and> list_all P [e]" by simp
  then show "\<exists>new. trace (snd (m w)) = trace w @ new \<and> list_all P new" by blast
qed

lemma emits_calls:
  "P (Called EnsureBrowser) \<Longrightarrow> emits P (call_ensureBrowser env)"
  "P (Called (Bundle entry modules)) \<Longrightarrow> emits P (call_bundle env entry modules)"
  "P (Called (SelectComposition url i)) \<Longrightarrow> emits P (call_selectComposition env url i)"
  "P (Called (RenderMedia req)) \<Longrightarrow> emits P (call_renderMedia env req)"
  by (rule emits_event;
      simp add: call_ensureBrowser_def call_bundle_def call_selectComposition_def
        call_renderMedia_def record_event_def split: sum.splits)+

definition render_target :: "string \<Rightarrow> jsnum \<Rightarrow> event \<Rightarrow> bool" where
  \<comment> \<open>a call of the renderer writes to the given path, with the given number of frames\<close>
  "render_target out n e =
     (case e of
        Called (RenderMedia req) \<Rightarrow> outputLocation req = out \<and> durationInFrames req = n
      | _ \<Rightarrow> True)"

definition writes_to :: "string \<Rightarrow> event \<Rightarrow> bool" where
  \<comment> \<open>a call of the renderer writes to the given path\<close>
  "writes_to out e =
     (case e of Called (RenderMedia req) \<Rightarrow> outputLocation req = out | _ \<Rightarrow> True)"

lemma render_steps_emits:
  "emits (render_target out (frames_of env cfg)) (render_steps env cfg d p name out)"
  unfolding render_steps_def Let_def
  by (intro emits_bind emits_calls emits_fs) (simp_all add: render_target_def)

lemma render_target_writes_to: "list_all (render_target out n) new \<Longrightarrow> list_all (writes_to out) new"
  by (induction new) (auto simp: render_target_def writes_to_def split: event.splits ext_call.splits)

lemma extractCompositionConfig_emits: "emits (writes_to out) (extractCompositionConfig env p)"
  unfolding extractCompositionConfig_def
proof (intro emits_bind emits_fs)
  fix src
  show "emits (writes_to out)
          (let filename = basename p ''.tsx'' in
           case configMatch src of
             None \<Rightarrow> io_of (Inl (''No compositionConfig found in '' @ filename @ ''.tsx''
                        @ [CHR 0x0A] @ ''Your file must export a compositionConfig object.''))
           | Some lit \<Rightarrow>
               (\<lambda>w. (Inr (config_from_literal (js_eval env) filename lit),
                      record_event (Evaluated (eval_source lit)) w)))"
    by (cases "configMatch src")
       (auto simp: Let_def intro!: emits_event simp: record_event_def writes_to_def)
qed

lemma createTempProject_emits: "emits P (createTempProject env p cfg)"
  unfolding createTempProject_def Let_def detectExportStyle_file_def
  by (intro emits_bind emits_fs)

lemma catch_cleanup_trace:
  "\<exists>new. trace (catch_cleanup env p out w) = trace w @ new \<and> list_all (writes_to out') new"
proof -
  have e: "emits (writes_to out')
        (io_bind (if existsSync w p then unlink env p else io_return ())
           (\<lambda>_ w1. if existsSync w1 out then unlink env out w1 else io_return () w1))"
  proof (intro emits_bind)
    show "emits (writes_to out') (if existsSync w p then unlink env p else io_return ())"
      by simp
    show "emits (writes_to out')
            (\<lambda>w1. if existsSync w1 out then unlink env out w1 else io_return () w1)" for x :: unit
      by (rule emits_silent) (simp add: unlink_def io_return_def split: option.splits)
  qed
  obtain r w2 where c: "io_bind (if existsSync w p then unlink env p else io_return ())
           (\<lambda>_ w1. if existsSync w1 out then unlink env out w1 else io_return () w1) w = (r, w2)"
    by (cases "io_bind (if existsSync w p then unlink env p else io_return ())
           (\<lambda>_ w1. if existsSync w1 out then unlink env out w1 else io_return () w1) w")
  from emitsD [OF e c] obtain new where n: "trace w2 = trace w @ new" "list_all (writes_to out') new"
    by blast
  show ?thesis
  proof (cases r)
    case (Inr u)
    with c n show ?thesis by (auto simp: catch_cleanup_def)
  next
    case (Inl err)
    with c n have "trace (catch_cleanup env p out w) = trace w @ (new @ [Logged ''Cleanup failed''])
        \<and> list_all (writes_to out') (new @ [Logged ''Cleanup failed''])"
      by (simp add: catch_cleanup_def record_event_def writes_to_def)
    then show ?thesis by blast
  qed
qed

lemma cleanupTempProject_trace: "trace (cleanupTempProject env d w) = trace w"
  by (simp add: cleanupTempProject_def rmSync_def split: option.splits)

lemma render_try_trace:
  assumes "render_try env tsx p name out w = (result, tp, w1)"
  shows "\<exists>new. trace w1 = trace w @ new \<and> list_all (writes_to out) new"
proof -
  obtain r1 wa where a: "writeFile env p tsx w = (r1, wa)" by (cases "writeFile env p tsx w")
  from emitsD [OF emits_fs(2) a] obtain na where
    na: "trace wa = trace w @ na" "list_all (writes_to out) na" by blast
  show ?thesis
  proof (cases r1)
    case (Inl err)
    with assms a na show ?thesis by (auto simp: render_try_def)
  next
    case Inr1: (Inr u1)
    obtain r2 wb where b: "extractCompositionConfig env p wa = (r2, wb)"
      by (cases "extractCompositionConfig env p wa")
    from emitsD [OF extractCompositionConfig_emits b] obtain nb where
      nb: "trace wb = trace wa @ nb" "list_all (writes_to out) nb" by blast
    show ?thesis
    proof (cases r2)
      case (Inl err)
      with assms a Inr1 b na nb have "trace w1 = trace w @ (na @ nb)"
        by (auto simp: render_try_def)
      with na nb show ?thesis by (intro exI [of _ "na @ nb"]) simp
    next
      case Inr2: (Inr cfg)
      obtain r3 wc where c: "call_ensureBrowser env wb = (r3, wc)"
        by (cases "call_ensureBrowser env wb")
      have "emits (writes_to out) (call_ensureBrowser env)"
        by (intro emits_calls) (simp add: writes_to_def)
      from emitsD [OF this c] obtain nc where
        nc: "trace wc = trace wb @ nc" "list_all (writes_to out) nc" by blast
      show ?thesis
      proof (cases r3)
        case (Inl err)
        with assms a Inr1 b Inr2 c na nb nc have "trace w1 = trace w @ (na @ nb @ nc)"
          by (auto simp: render_try_def)
        with na nb nc show ?thesis by (intro exI [of _ "na @ nb @ nc"]) simp
      next
        case Inr3: (Inr u3)
        obtain r4 wd where d: "createTempProject env p cfg wc = (r4, wd)"
          by (cases "createTempProject env p cfg wc")
        from emitsD [OF createTempProject_emits d] obtain nd where
          nd: "trace wd = trace wc @ nd" "list_all (writes_to out) nd" by blast
        show ?thesis
        proof (cases r4)
          case (Inl err)
          with assms a Inr1 b Inr2 c Inr3 d na nb nc nd
          have "trace w1 = trace w @ (na @ nb @ nc @ nd)"
            by (auto simp: render_try_def)
          with na nb nc nd show ?thesis by (intro exI [of _ "na @ nb @ nc @ nd"]) simp
        next
          case Inr4: (Inr dir)
          obtain r5 we where e: "render_steps env cfg dir p name out wd = (r5, we)"
            by (cases "render_steps env cfg dir p name out wd")
          from emitsD [OF render_steps_emits e] obtain ne where
            ne: "trace we = trace wd @ ne" "list_all (writes_to out) ne"
            by (blast dest: render_target_writes_to)
          from assms a Inr1 b Inr2 c Inr3 d Inr4 e na nb nc nd ne
          have "trace w1 = trace w @ (na @ nb @ nc @ nd @ ne)"
            by (auto simp: render_try_def)
          with na nb nc nd ne show ?thesis
            by (intro exI [of _ "na @ nb @ nc @ nd @ ne"]) simp
        qed
      qed
    qed
  qed
qed

lemma render_job_trace:
  "\<exists>new. trace (snd (render_job env jobId tsx p name out w)) = trace w @ new
         \<and> list_all (writes_to out) new"
proof -
  obtain result tp w1 where t: "render_try env tsx p name out w = (result, tp, w1)"
    by (cases "render_try env tsx p name out w")
  from render_try_trace [OF t] obtain n1 where
    n1: "trace w1 = trace w @ n1" "list_all (writes_to out) n1" by blast
  define w2 where "w2 = (case result of Inr r \<Rightarrow> w1
      | Inl err \<Rightarrow> catch_cleanup env p out (record_event (Logged ''Render failed'') w1))"
  have "\<exists>n2. trace w2 = trace w1 @ n2 \<and> list_all (writes_to out) n2"
  proof (cases result)
    case (Inr r)
    then show ?thesis by (simp add: w2_def)
  next
    case (Inl err)
    from catch_cleanup_trace [of env p out "record_event (Logged ''Render failed'') w1" out]
    obtain n where "trace w2 = trace w1 @ ([Logged ''Render failed''] @ n)"
      "list_all (writes_to out) ([Logged ''Render failed''] @ n)"
      using Inl by (auto simp: w2_def record_event_def writes_to_def)
    then show ?thesis by blast
  qed
  then obtain n2 where n2: "trace w2 = trace w1 @ n2" "list_all (writes_to out) n2" by blast
  have "trace (snd (render_job env jobId tsx p name out w)) = trace w2"
    using t by (auto simp: render_job_def w2_def cleanupTempProject_trace
        split: sum.splits option.splits)
  with n1 n2 show ?thesis by (intro exI [of _ "n1 @ n2"]) simp
qed

lemma render_steps_reply:
  assumes "render_steps env cfg d p name out w = (Inr r, w')"
  shows "\<exists>stream. r = video_reply name stream"
  using assms
  by (auto simp: render_steps_def Let_def io_bind_Inr io_return_def)

lemma render_job_200:
  assumes "fst (render_job env jobId tsx p name out w) = Replied r" and "status r = 200"
  shows "\<exists>stream. r = video_reply name stream"
proof -
  obtain result tp w1 where t: "render_try env tsx p name out w = (result, tp, w1)"
    by (cases "render_try env tsx p name out w")
  with assms have "result = Inr r"
    by (auto simp: render_job_def render_failed_reply_def split: sum.splits)
  with t assms(2) show ?thesis
    by (auto simp: render_try_def invalid_config_reply_def
        split: prod.splits sum.splits dest: render_steps_reply)
qed

section \<open>Clean-up after a job\<close>

definition good_request :: jsval where
  "good_request = JObj [(''tsx'', JStr good_tsx), (''filename'', JStr ''../clip.mov'')]"

lemma handler_admits:
  assumes "get_prop req_body ''tsx'' = Inr (JStr tsx)" and "tsx \<noteq> []"
    and "length tsx \<le> MAX_TSX_SIZE" and "get_prop req_body ''filename'' = Inr fn"
    and "js_or fn (JStr (randomUUID env @ ''.mp4'')) = JStr name"
  shows "render_handler env req_body w =
           render_job env (randomUUID env) tsx (path_join [TEMP_DIR env, randomUUID env @ ''.tsx''])
             name (path_join [OUTPUT_DIR env, name]) w"
  using assms by (simp add: render_handler_def sum_bind_def Let_def)

lemma run_handler:
  "render_handler (rm_env r) good_request start_world =
     render_job (rm_env r) ''job-1'' good_tsx ''/srv/temp/job-1.tsx'' ''../clip.mov''
       ''/srv/clip.mov'' start_world"
proof -
  have "render_handler (rm_env r) good_request start_world =
     render_job (rm_env r) (randomUUID (rm_env r)) good_tsx
       (path_join [TEMP_DIR (rm_env r), randomUUID (rm_env r) @ ''.tsx''])
       ''../clip.mov'' (path_join [OUTPUT_DIR (rm_env r), ''../clip.mov'']) start_world"
    using good_tsx_size
    by (intro handler_admits [where fn = "JStr ''../clip.mov''"])
       (simp_all add: good_request_def js_or_def)
  then show ?thesis by (simp add: job_paths)
qed

lemma cleanupTempProject_fails:
  assumes "fs_fault env (Rm d) = Some e"
  shows "cleanupTempProject env d w = w"
  using assms by (simp add: cleanupTempProject_def rmSync_def)

text \<open>
  C2 as stated fails: the job below succeeds, the directory of its temporary project
  was not there before and was made by the job, and the removal of the directory
  fails. The error is swallowed, and the directory and its files are there after the job.
\<close>

theorem project_dir_stays_when_removal_fails:
  "fst (render_handler (rm_env (Some ''EBUSY'')) good_request start_world)
     = Replied (video_reply ''../clip.mov'' ''mp4-bytes'')
   \<and> \<not> existsSync start_world ''/tmp/remotion-render-1700000000000''
   \<and> fst (snd (render_try (rm_env (Some ''EBUSY'')) good_tsx ''/srv/temp/job-1.tsx''
               ''../clip.mov'' ''/srv/clip.mov'' start_world))
       = Some ''/tmp/remotion-render-1700000000000''
   \<and> existsSync (snd (render_handler (rm_env (Some ''EBUSY'')) good_request start_world))
       ''/tmp/remotion-render-1700000000000''
   \<and> existsSync (snd (render_handler (rm_env (Some ''EBUSY'')) good_request start_world))
       ''/tmp/remotion-render-1700000000000/src/Root.tsx''"
proof -
  let ?env = "rm_env (Some ''EBUSY'')"
  let ?end = "rendered_world ?env demo_config
      ([Evaluated ''({ id: 'demo', fps: 24, width: 640, height: 480, durationInSeconds: 2 })'',
        Called EnsureBrowser] @ render_events ?env demo_config)"
  have j: "render_job ?env ''job-1'' good_tsx ''/srv/temp/job-1.tsx'' ''../clip.mov''
             ''/srv/clip.mov'' start_world
           = (Replied (video_reply ''../clip.mov'' ''mp4-bytes''), ?end)"
    by (simp add: render_job_def run_try cleanupTempProject_fails [where e = "''EBUSY''"])
  have s: "\<not> existsSync start_world ''/tmp/remotion-render-1700000000000''"
    by (simp add: existsSync_def start_world_def)
  have e: "existsSync ?end ''/tmp/remotion-render-1700000000000''"
    "existsSync ?end ''/tmp/remotion-render-1700000000000/src/Root.tsx''"
    by (simp_all add: existsSync_def rendered_world_def project_files_def)
  show ?thesis
    unfolding run_handler j using s e by (simp add: run_try)
qed

theorem project_dir_removed_witness:
  "\<not> existsSync (snd (render_job (rm_env None) ''job-1'' good_tsx ''/srv/temp/job-1.tsx''
                        ''../clip.mov'' ''/srv/clip.mov'' start_world))
       ''/tmp/remotion-render-1700000000000''
   \<and> \<not> existsSync (snd (render_job (rm_env None) ''job-1'' good_tsx ''/srv/temp/job-1.tsx''
                          ''../clip.mov'' ''/srv/clip.mov'' start_world))
         ''/tmp/remotion-render-1700000000000/src/Root.tsx''"
proof -
  have f: "fs_fault (rm_env None) (Rm ''/tmp/remotion-render-1700000000000'') = None"
    by simp
  have i: "inside ''/tmp/remotion-render-1700000000000''
             ''/tmp/remotion-render-1700000000000/src/Root.tsx''"
    by (simp add: inside_def)
  from project_dir_removed [OF run_try f, of "''job-1''"] i show ?thesis
    by blast
qed

lemma extractCompositionConfig_files:
  "files (snd (extractCompositionConfig env p w)) = files w"
  by (simp add: extractCompositionConfig_def io_bind_def readFile_def io_of_def Let_def
      record_event_def split: option.splits)

lemma config_failure_keeps_source:
  assumes "writeFile env p tsx w = (Inr u, w1)"
    and "extractCompositionConfig env p w1 = (Inl err, w2)"
  shows "render_job env jobId tsx p name out w = (Replied (invalid_config_reply err), w2)"
    and "map_of (files w2) p = Some \<lparr>file_content = tsx, mtimeMs = int (Date_now env)\<rparr>"
proof -
  show "render_job env jobId tsx p name out w = (Replied (invalid_config_reply err), w2)"
    using assms by (simp add: render_job_def render_try_def)
  from assms(2) extractCompositionConfig_files [of env p w1] have "files w2 = files w1"
    by simp
  with assms(1) show "map_of (files w2) p = Some \<lparr>file_content = tsx, mtimeMs = int (Date_now env)\<rparr>"
    by (auto simp: writeFile_def split: option.splits)
qed

lemma catch_cleanup_removes:
  assumes "fs_fault env (Unlink p) = None" and "fs_fault env (Unlink out) = None"
    and "p \<notin> set (dirs w)" and "out \<notin> set (dirs w)"
  shows "map_of (files (catch_cleanup env p out w)) p = None
         \<and> map_of (files (catch_cleanup env p out w)) out = None"
  using assms
  by (auto simp: catch_cleanup_def io_bind_def existsSync_def unlink_def io_return_def
        map_of_filter_fst [where P = "\<lambda>q. q \<noteq> p"] map_of_filter_fst [where P = "\<lambda>q. q \<noteq> out"]
        map_of_filter_fst [where P = "\<lambda>q. q \<noteq> p \<and> q \<noteq> out"]
      split: option.splits)

text \<open>
  C1, at a failing input. The source text holds no \<^verbatim>\<open>compositionConfig\<close>, so the job
  fails at the config extraction. The handler answers 400 from inside the \<^verbatim>\<open>try\<close> block
  and never reaches the clean-up of the \<^verbatim>\<open>catch\<close> block: the temporary source file of the
  job is still on disk when the response is produced. (On the failures that reach the
  \<^verbatim>\<open>catch\<close> block both files are deleted, see \<open>catch_cleanup_removes\<close>.)
\<close>

theorem config_failure_leaves_source_file:
  "render_handler example_env (JObj [(''tsx'', JStr ''const x = 1;'')]) start_world =
     (Replied (invalid_config_reply
        (''No compositionConfig found in job-1.tsx'' @ [CHR 0x0A]
         @ ''Your file must export a compositionConfig object.'')),
      \<lparr> files = [(''/srv/temp/job-1.tsx'',
                  \<lparr>file_content = ''const x = 1;'', mtimeMs = 1700000000000\<rparr>)],
        dirs = [''/srv/temp'', ''/srv/outputs''],
        trace = [] \<rparr>)"
proof -
  let ?w1 = "\<lparr> files = [(''/srv/temp/job-1.tsx'',
                  \<lparr>file_content = ''const x = 1;'', mtimeMs = 1700000000000\<rparr>)],
        dirs = [''/srv/temp'', ''/srv/outputs''],
        trace = [] \<rparr>"
  have h: "render_handler example_env (JObj [(''tsx'', JStr ''const x = 1;'')]) start_world =
     render_job example_env ''job-1'' ''const x = 1;'' ''/srv/temp/job-1.tsx'' ''job-1.mp4''
       (path_join [''/srv/outputs'', ''job-1.mp4'']) start_world"
    using handler_admits [where req_body = "JObj [(''tsx'', JStr ''const x = 1;'')]"
        and tsx = "''const x = 1;''" and fn = JUndefined and env = example_env
        and name = "''job-1.mp4''" and w = start_world]
      job_paths(1,2) [of None] job_paths(3)
    by (simp add: rm_env_None js_or_def MAX_TSX_SIZE_def example_env_def)
  have w: "writeFile example_env ''/srv/temp/job-1.tsx'' ''const x = 1;'' start_world = (Inr (), ?w1)"
    by (simp add: writeFile_def start_world_def example_env_def)
  have m: "configMatch ''const x = 1;'' = None" "basename ''/srv/temp/job-1.tsx'' ''.tsx'' = ''job-1''"
    by code_simp+
  have r: "readFile example_env ''/srv/temp/job-1.tsx'' ?w1 = (Inr ''const x = 1;'', ?w1)"
    by (simp add: readFile_def example_env_def)
  have e: "extractCompositionConfig example_env ''/srv/temp/job-1.tsx'' ?w1 =
      (Inl (''No compositionConfig found in job-1.tsx'' @ [CHR 0x0A]
            @ ''Your file must export a compositionConfig object.''), ?w1)"
    unfolding extractCompositionConfig_run [OF r] by (simp add: m)
  show ?thesis
    unfolding h by (rule config_failure_keeps_source(1) [OF w e])
qed

section \<open>The number of frames\<close>

lemma writeFile_lookup:
  assumes "writeFile env q data w = (Inr u, w')"
  shows "map_of (files w') k =
           (if k = q then Some \<lparr>file_content = data, mtimeMs = int (Date_now env)\<rparr>
            else map_of (files w) k)"
  using assms
  by (auto simp: writeFile_def map_of_filter_fst [where P = "\<lambda>x. x \<noteq> q"] split: option.splits)

lemma path_join_last:
  assumes "plain_name n"
  shows "last (path_join [a, n]) = last n"
  using assms by (simp add: path_join_plain plain_name_def)

lemma root_path_distinct:
  "path_join [s, ''Root.tsx''] \<noteq> path_join [d, ''tsconfig.json'']"
  "path_join [s, ''Root.tsx''] \<noteq> path_join [d, ''remotion.config.ts'']"
proof -
  have p: "plain_name ''Root.tsx''" "plain_name ''tsconfig.json''" "plain_name ''remotion.config.ts''"
    by (simp_all add: plain_name_def)
  show "path_join [s, ''Root.tsx''] \<noteq> path_join [d, ''tsconfig.json'']"
    using path_join_last [OF p(1), of s] path_join_last [OF p(2), of d] by auto
  show "path_join [s, ''Root.tsx''] \<noteq> path_join [d, ''remotion.config.ts'']"
    using path_join_last [OF p(1), of s] path_join_last [OF p(3), of d] by auto
qed

lemma createTempProject_root_file:
  assumes "createTempProject env p cfg w = (Inr dir, w')"
  shows "\<exists>style. map_of (files w') (path_join [path_join [dir, ''src''], ''Root.tsx'']) =
           Some \<lparr>file_content =
                   rootTsx env
                     (import_statement style ''UserComponent''
                        (map (\<lambda>c. if c = CHR 0x5C then CHR ''/'' else c) p))
                     ''UserComponent'' cfg (frames_of env cfg),
                 mtimeMs = int (Date_now env)\<rparr>"
proof -
  have d: "dir = tempDir_name env"
    using assms by (rule createTempProject_returns)
  let ?src = "path_join [tempDir_name env, ''src'']"
  from assms obtain style wi wr wt where
    r: "writeFile env (path_join [?src, ''Root.tsx''])
          (rootTsx env (import_statement style ''UserComponent''
                          (map (\<lambda>c. if c = CHR 0x5C then CHR ''/'' else c) p))
             ''UserComponent'' cfg (frames_of env cfg)) wi = (Inr (), wr)"
    and t: "writeFile env (path_join [tempDir_name env, ''tsconfig.json'']) tsconfig_json wr
              = (Inr (), wt)"
    and c: "writeFile env (path_join [tempDir_name env, ''remotion.config.ts'']) remotionConfig wt
              = (Inr (), w')"
    unfolding createTempProject_def Let_def io_bind_Inr io_return_def by auto
  have "map_of (files w') (path_join [?src, ''Root.tsx''])
          = map_of (files wr) (path_join [?src, ''Root.tsx''])"
    by (simp add: writeFile_lookup [OF c] writeFile_lookup [OF t] root_path_distinct)
  then show ?thesis
    unfolding d by (auto simp: writeFile_lookup [OF r])
qed

subsection \<open>The error of rounding to a double\<close>

lemma ilog2_nonneg: "0 \<le> ilog2 n"
  by (induction n rule: ilog2.induct) (subst ilog2.simps, simp)

lemma ilog2_bounds:
  "1 \<le> n \<Longrightarrow> 2 ^ nat (ilog2 n) \<le> n \<and> n < 2 * 2 ^ nat (ilog2 n)"
proof (induction n rule: ilog2.induct)
  case (1 n)
  show ?case
  proof (cases "n < 2")
    case True
    with 1(2) show ?thesis by (subst ilog2.simps, subst (2) ilog2.simps) simp
  next
    case False
    then have h: "1 \<le> n div 2" by simp
    from 1(1) [OF False h] have
      a: "2 ^ nat (ilog2 (n div 2)) \<le> n div 2" and b: "n div 2 < 2 * 2 ^ nat (ilog2 (n div 2))"
      by simp_all
    have e: "ilog2 n = 1 + ilog2 (n div 2)"
      using False by (subst ilog2.simps) simp
    have p: "(2::int) ^ nat (ilog2 n) = 2 * 2 ^ nat (ilog2 (n div 2))"
      unfolding e using ilog2_nonneg [of "n div 2"] by (simp add: nat_add_distrib)
    from a b show ?thesis unfolding p by linarith
  qed
qed

lemma ilog2_powi:
  assumes "1 \<le> n"
  shows "(2::rat) powi ilog2 n \<le> of_int n" "of_int n + 1 \<le> (2::rat) powi (ilog2 n + 1)"
proof -
  from ilog2_bounds [OF assms] have a: "2 ^ nat (ilog2 n) \<le> n" and b: "n + 1 \<le> 2 * 2 ^ nat (ilog2 n)"
    by simp_all
  have p: "(2::rat) powi ilog2 n = of_int (2 ^ nat (ilog2 n))"
    using ilog2_nonneg [of n] by (simp add: power_int_def)
  show "(2::rat) powi ilog2 n \<le> of_int n"
    unfolding p using a by (simp only: of_int_le_iff)
  have "(2::rat) powi (ilog2 n + 1) = of_int (2 * 2 ^ nat (ilog2 n))"
    using ilog2_nonneg [of n] by (simp add: power_int_add p)
  moreover have "(of_int n + 1 :: rat) = of_int (n + 1)" by simp
  ultimately show "of_int n + 1 \<le> (2::rat) powi (ilog2 n + 1)"
    using b by (simp only: of_int_le_iff)
qed

lemma exponent_of_bounds:
  assumes "0 < q"
  shows "2 powi exponent_of q \<le> q" "q < 2 powi (exponent_of q + 1)"
proof -
  have "2 powi exponent_of q \<le> q \<and> q < 2 powi (exponent_of q + 1)"
  proof (cases "1 \<le> q")
    case True
    then have n: "1 \<le> \<lfloor>q\<rfloor>" by simp
    have e: "exponent_of q = ilog2 \<lfloor>q\<rfloor>" using True by (simp add: exponent_of_def)
    have "of_int \<lfloor>q\<rfloor> \<le> q" "q < of_int \<lfloor>q\<rfloor> + 1" by linarith+
    with ilog2_powi [OF n] show ?thesis unfolding e by linarith
  next
    case False
    define r where "r = 1 / q"
    define m where "m = \<lceil>r\<rceil> - 1"
    define k where "k = ilog2 m"
    have r1: "1 < r" using False assms by (simp add: r_def)
    then have "2 \<le> \<lceil>r\<rceil>" by linarith
    then have m1: "1 \<le> m" by (simp add: m_def)
    have mr: "of_int m < r" "r \<le> of_int m + 1" unfolding m_def by linarith+
    have e: "exponent_of q = - (k + 1)"
      using False by (simp add: exponent_of_def k_def m_def r_def)
    from ilog2_powi [OF m1] have kb: "(2::rat) powi k \<le> of_int m" "of_int m + 1 \<le> (2::rat) powi (k + 1)"
      by (simp_all add: k_def)
    have lo: "(2::rat) powi k < r" and hi: "r \<le> (2::rat) powi (k + 1)"
      using kb mr by linarith+
    have q: "q = 1 / r" using assms by (simp add: r_def)
    have pos: "(0::rat) < 2 powi k" "(0::rat) < 2 powi (k + 1)" by simp_all
    have a: "2 powi (- (k + 1)) \<le> q"
      unfolding q power_int_minus_divide using hi pos(2) r1 by (simp add: frac_le)
    have "1 / r < 1 / 2 powi k"
      using lo pos(1) by (simp add: frac_less2)
    then have b: "q < 2 powi (- k)"
      unfolding q power_int_minus_divide .
    from a b show ?thesis unfolding e by simp
  qed
  then show "2 powi exponent_of q \<le> q" "q < 2 powi (exponent_of q + 1)" by simp_all
qed

lemma round_half_even_bound: "\<bar>of_int (round_half_even x) - x\<bar> \<le> 1 / 2"
proof -
  have "of_int \<lfloor>x\<rfloor> \<le> x" "x < of_int \<lfloor>x\<rfloor> + 1" by linarith+
  then show ?thesis
    by (auto simp: round_half_even_def Let_def)
qed

lemma round_half_even_nonneg: "0 \<le> x \<Longrightarrow> 0 \<le> round_half_even x"
proof -
  assume "0 \<le> x"
  then have "0 \<le> \<lfloor>x\<rfloor>" by simp
  then show ?thesis by (auto simp: round_half_even_def Let_def)
qed

lemma ulp_pos: "0 < ulp q"
  by (simp add: ulp_def)

lemma to_double_pos_Some:
  assumes "to_double_pos q = Some m"
  shows "m = of_int (round_half_even (q / ulp q)) * ulp q"
  using assms by (auto simp: to_double_pos_def Let_def split: if_splits)

lemma to_double_pos_error:
  assumes "to_double_pos q = Some m"
  shows "\<bar>m - q\<bar> \<le> ulp q / 2"
proof -
  have m: "m = of_int (round_half_even (q / ulp q)) * ulp q"
    using assms by (rule to_double_pos_Some)
  have "m - q = (of_int (round_half_even (q / ulp q)) - q / ulp q) * ulp q"
    using ulp_pos [of q] by (simp add: m algebra_simps)
  then have "\<bar>m - q\<bar> = \<bar>of_int (round_half_even (q / ulp q)) - q / ulp q\<bar> * ulp q"
    using ulp_pos [of q] by (simp add: abs_mult)
  also have "\<dots> \<le> 1 / 2 * ulp q"
    using round_half_even_bound [of "q / ulp q"] ulp_pos [of q]
    by (intro mult_right_mono) simp_all
  finally show ?thesis by simp
qed

lemma half_ulp_le:
  assumes "0 < q"
  shows "ulp q / 2 \<le> max (q / 2 ^ 53) (2 powi (- 1075))"
proof (cases "- 1022 \<le> exponent_of q")
  case True
  then have "ulp q = 2 powi (exponent_of q - 52)" by (simp add: ulp_def max_def)
  also have "\<dots> = 2 powi exponent_of q * 2 powi (- 52)"
    by (simp add: power_int_diff power_int_minus_divide)
  finally have "ulp q / 2 = 2 powi exponent_of q / 2 ^ 53"
    by (simp add: power_int_minus_divide)
  also have "\<dots> \<le> q / 2 ^ 53"
    using exponent_of_bounds(1) [OF assms] by (simp add: divide_right_mono)
  finally show ?thesis by simp
next
  case False
  then have "ulp q = 2 powi (- 1074)" by (simp add: ulp_def max_def)
  then have "ulp q / 2 = 2 powi (- 1075)"
    by (simp add: power_int_minus_divide)
  then show ?thesis by simp
qed

lemma to_double_pos_finite:
  assumes "0 < q" and "q < 2 ^ 1023"
  shows "\<exists>m. to_double_pos q = Some m"
proof -
  have "exponent_of q < 1023"
  proof (rule ccontr)
    assume "\<not> exponent_of q < 1023"
    then have "(2::rat) powi 1023 \<le> 2 powi exponent_of q"
      by (intro power_int_increasing) simp_all
    with exponent_of_bounds(1) [OF assms(1)] assms(2) show False by simp
  qed
  then show ?thesis
    by (simp add: to_double_pos_def Let_def)
qed

lemma to_double_pos_nonneg:
  assumes "0 < q" and "to_double_pos q = Some m"
  shows "0 \<le> m"
proof -
  have "0 \<le> q / ulp q" using assms(1) ulp_pos [of q] by simp
  then have "0 \<le> round_half_even (q / ulp q)" by (rule round_half_even_nonneg)
  then show ?thesis
    unfolding to_double_pos_Some [OF assms(2)] using ulp_pos [of q] by simp
qed

lemma to_double_positive:
  assumes "0 < q"
  shows "to_double q = PosInf \<or> (\<exists>p. to_double q = Fin p \<and> 0 \<le> p
            \<and> \<bar>p - q\<bar> \<le> max (q / 2 ^ 53) (2 powi (- 1075)))"
proof (cases "to_double_pos q")
  case None
  then show ?thesis using assms by (simp add: to_double_def)
next
  case (Some m)
  from to_double_pos_error [OF Some] half_ulp_le [OF assms]
  have "\<bar>m - q\<bar> \<le> max (q / 2 ^ 53) (2 powi (- 1075))" by linarith
  with to_double_pos_nonneg [OF assms Some] Some assms show ?thesis
    by (simp add: to_double_def)
qed

lemma to_double_finite:
  assumes "0 < q" and "q < 2 ^ 1023"
  shows "\<exists>p. to_double q = Fin p \<and> 0 \<le> p \<and> \<bar>p - q\<bar> \<le> max (q / 2 ^ 53) (2 powi (- 1075))"
proof -
  from to_double_pos_finite [OF assms] assms(1) have "to_double q \<noteq> PosInf"
    by (auto simp: to_double_def)
  with to_double_positive [OF assms(1)] show ?thesis by simp
qed

lemma floor_half_stable:
  fixes p q :: rat
  assumes "\<bar>p - q\<bar> \<le> eps" and "eps < \<bar>frac q - 1 / 2\<bar>"
  shows "\<lfloor>p + 1 / 2\<rfloor> = \<lfloor>q + 1 / 2\<rfloor>"
proof -
  define n where "n = \<lfloor>q\<rfloor>"
  have q: "of_int n \<le> q" "q < of_int n + 1" unfolding n_def by linarith+
  have f: "frac q = q - of_int n" by (simp add: frac_def n_def)
  show ?thesis
  proof (cases "frac q < 1 / 2")
    case True
    with assms f q have "of_int n \<le> q + 1 / 2" "q + 1 / 2 < of_int n + 1"
      "of_int n \<le> p + 1 / 2" "p + 1 / 2 < of_int n + 1" by linarith+
    then have "\<lfloor>q + 1 / 2\<rfloor> = n" "\<lfloor>p + 1 / 2\<rfloor> = n" by linarith+
    then show ?thesis by simp
  next
    case False
    with assms f q have "of_int (n + 1) \<le> q + 1 / 2" "q + 1 / 2 < of_int (n + 1) + 1"
      "of_int (n + 1) \<le> p + 1 / 2" "p + 1 / 2 < of_int (n + 1) + 1" by (simp; linarith)+
    then have "\<lfloor>q + 1 / 2\<rfloor> = n + 1" "\<lfloor>p + 1 / 2\<rfloor> = n + 1" by linarith+
    then show ?thesis by simp
  qed
qed

lemma Math_round_to_double:
  assumes "0 < q" and "max (q / 2 ^ 53) (2 powi (- 1075)) < \<bar>frac q - 1 / 2\<bar>"
  shows "Math_round (to_double q) = Fin (of_int (round q))"
proof -
  have "0 \<le> frac q" "frac q < 1" by (simp_all add: frac_lt_1)
  then have "\<bar>frac q - 1 / 2\<bar> \<le> 1 / 2" by linarith
  with assms(2) have "q / 2 ^ 53 < 1 / 2" by simp
  then have "q < 2 ^ 52" by simp
  also have "\<dots> < 2 ^ 1023" by (intro power_strict_increasing) simp_all
  finally obtain p where p: "to_double q = Fin p"
    and e: "\<bar>p - q\<bar> \<le> max (q / 2 ^ 53) (2 powi (- 1075))"
    using to_double_finite [OF assms(1)] by blast
  from floor_half_stable [OF e assms(2)] show ?thesis
    by (simp add: p round_def)
qed

lemma Math_round_error:
  assumes "0 < q" and "q < 2 ^ 1023"
  shows "\<exists>n. Math_round (to_double q) = Fin (of_int n) \<and> 0 \<le> n
           \<and> \<bar>of_int n - q\<bar> \<le> 1 / 2 + max (q / 2 ^ 53) (2 powi (- 1075))"
proof -
  from to_double_finite [OF assms] obtain p where p: "to_double q = Fin p" "0 \<le> p"
    and e: "\<bar>p - q\<bar> \<le> max (q / 2 ^ 53) (2 powi (- 1075))"
    by blast
  have "of_int \<lfloor>p + 1 / 2\<rfloor> \<le> p + 1 / 2" "p + 1 / 2 < of_int \<lfloor>p + 1 / 2\<rfloor> + 1"
    by linarith+
  then have "\<bar>of_int \<lfloor>p + 1 / 2\<rfloor> - p\<bar> \<le> 1 / 2" by linarith
  with e have "\<bar>of_int \<lfloor>p + 1 / 2\<rfloor> - q\<bar> \<le> 1 / 2 + max (q / 2 ^ 53) (2 powi (- 1075))"
    by linarith
  moreover have "0 \<le> \<lfloor>p + 1 / 2\<rfloor>" using p(2) by simp
  ultimately show ?thesis by (auto simp: p(1))
qed

lemma frames_of_product:
  assumes "durationInSeconds cfg = JNum (Fin d)" and "fps cfg = JNum (Fin f)"
  shows "frames_of env cfg = Math_round (to_double (d * f))"
  by (simp add: frames_of_def to_number_def assms)

subsection \<open>The frames of a config\<close>

definition spec_frames :: "rat \<Rightarrow> rat \<Rightarrow> jsnum" where
  \<comment> \<open>the specification's words: \<open>round (durationInSeconds * fps)\<close>, of the product itself\<close>
  "spec_frames d f = Fin (of_int (round (d * f)))"

definition short_config :: config where
  \<comment> \<open>0.7 seconds at 5 frames a second: the duration is the double that \<^verbatim>\<open>0.7\<close> denotes\<close>
  "short_config =
     \<lparr> id' = JStr ''demo'', durationInSeconds = JNum (Fin (3152519739159347 / 2 ^ 52)),
       fps = JNum (Fin 5), width = JNum (Fin 640), height = JNum (Fin 480),
       defaultProps = JObj [] \<rparr>"

definition ntsc_config :: config where
  \<comment> \<open>five seconds at 29.97 frames a second: the rate is the double that \<^verbatim>\<open>29.97\<close> denotes\<close>
  "ntsc_config =
     \<lparr> id' = JStr ''demo'', durationInSeconds = JNum (Fin 5),
       fps = JNum (Fin (1054475631502295 / 2 ^ 45)),
       width = JNum (Fin 640), height = JNum (Fin 480), defaultProps = JObj [] \<rparr>"

text \<open>
  C9 as stated fails, because the product is a product of doubles: it is rounded to a double
  before \<^verbatim>\<open>Math.round\<close> sees it. At 0.7 seconds and 5 frames a second the two doubles
  multiply to \<open>3.5 - 2\<^sup>-\<^sup>5\<^sup>2\<close>, whose nearest integer is 3; the code rounds the product to
  the double 3.5 and then to 4, and 4 is what it writes into \<^verbatim>\<open>Root.tsx\<close> and passes to
  the renderer. Reading the inputs as the decimals of the source text does not save the
  claim either: 2.05 seconds at 30 frames a second is 61.5, which rounds to 62, and the code
  gives 61.
\<close>

theorem frames_differ_from_rounded_product:
  "to_double (7 / 10) = Fin (3152519739159347 / 2 ^ 52)
   \<and> to_double 5 = Fin 5
   \<and> frames_of example_env short_config = Fin 4
   \<and> spec_frames (3152519739159347 / 2 ^ 52) 5 = Fin 3
   \<and> map_of (files (snd (createTempProject example_env ''/srv/temp/job-1.tsx'' short_config
                          (staged_world []))))
        ''/tmp/remotion-render-1700000000000/src/Root.tsx''
      = Some \<lparr>file_content =
                 rootTsx example_env ''import UserComponent from '/srv/temp/job-1.tsx';''
                   ''UserComponent'' short_config (Fin 4),
               mtimeMs = 1700000000000\<rparr>
   \<and> trace (snd (render_steps example_env short_config ''/tmp/remotion-render-1700000000000''
                    ''/srv/temp/job-1.tsx'' ''../clip.mov'' ''/srv/clip.mov''
                    (project_world example_env short_config [])))
      = [Called (Bundle ''/tmp/remotion-render-1700000000000/src/index.ts'' ''/srv/node_modules''),
         Called (SelectComposition ''/tmp/bundle'' (JStr ''demo'')),
         Called (RenderMedia
                   \<lparr> composition = JObj [(''id'', JStr ''demo'')],
                     durationInFrames = Fin 4,
                     fps_arg = JNum (Fin 5),
                     width_arg = JNum (Fin 640),
                     height_arg = JNum (Fin 480),
                     serveUrl = ''/tmp/bundle'',
                     codec = ''h264'',
                     outputLocation = ''/srv/clip.mov'' \<rparr>)]
   \<and> frames_of example_env
         (short_config\<lparr>durationInSeconds := JNum (parse_float ''2.05''), fps := JNum (Fin 30)\<rparr>)
       = Fin 61
   \<and> spec_frames (205 / 100) 30 = Fin 62"
proof -
  have a: "to_double (7 / 10) = Fin (3152519739159347 / 2 ^ 52)" "to_double 5 = Fin 5"
    by code_simp+
  have t: "js_times (Fin (3152519739159347 / 2 ^ 52)) (Fin 5) = Fin (7 / 2)"
    by code_simp
  have "frames_of example_env short_config
          = Math_round (js_times (Fin (3152519739159347 / 2 ^ 52)) (Fin 5))"
    by (simp only: frames_of_def to_number_def short_config_def config.simps jsval.simps)
  also have "\<dots> = Fin 4"
    unfolding t by (simp add: floor_eq_iff)
  finally have f: "frames_of example_env short_config = Fin 4" .
  have s: "spec_frames (3152519739159347 / 2 ^ 52) 5 = Fin 3"
    by (simp add: spec_frames_def round_def floor_eq_iff)
  have i: "import_statement DefaultExport ''UserComponent'' ''/srv/temp/job-1.tsx''
             = ''import UserComponent from '/srv/temp/job-1.tsx';''"
    by (simp add: import_statement_def)
  have p: "snd (createTempProject example_env ''/srv/temp/job-1.tsx'' short_config (staged_world []))
             = project_world example_env short_config []"
    using run_project [of None short_config "[]"] by (simp add: rm_env_None)
  have r: "snd (render_steps example_env short_config ''/tmp/remotion-render-1700000000000''
                    ''/srv/temp/job-1.tsx'' ''../clip.mov'' ''/srv/clip.mov''
                    (project_world example_env short_config []))
             = rendered_world example_env short_config (render_events example_env short_config)"
    using run_steps [of None short_config "[]"] by (simp add: rm_env_None)
  have w: "map_of (files (project_world example_env short_config []))
             ''/tmp/remotion-render-1700000000000/src/Root.tsx''
      = Some \<lparr>file_content =
                 rootTsx example_env ''import UserComponent from '/srv/temp/job-1.tsx';''
                   ''UserComponent'' short_config (Fin 4),
               mtimeMs = 1700000000000\<rparr>"
    by (simp add: f i project_world_def project_files_def)
  have e: "trace (rendered_world example_env short_config (render_events example_env short_config))
      = [Called (Bundle ''/tmp/remotion-render-1700000000000/src/index.ts'' ''/srv/node_modules''),
         Called (SelectComposition ''/tmp/bundle'' (JStr ''demo'')),
         Called (RenderMedia
                   \<lparr> composition = JObj [(''id'', JStr ''demo'')],
                     durationInFrames = Fin 4,
                     fps_arg = JNum (Fin 5),
                     width_arg = JNum (Fin 640),
                     height_arg = JNum (Fin 480),
                     serveUrl = ''/tmp/bundle'',
                     codec = ''h264'',
                     outputLocation = ''/srv/clip.mov'' \<rparr>)]"
    by (simp add: f rendered_world_def render_events_def) (simp add: short_config_def)
  have pf: "parse_float ''2.05'' = to_double (205 / 100)"
    by (simp add: parse_float_def split_sign_def is_space_def is_digit_def digits_value_def
        digit_value_def exponent_part_def)
  have d: "to_double (205 / 100) = Fin (2308094809027379 / 2 ^ 50)"
    by code_simp
  have t2: "js_times (Fin (2308094809027379 / 2 ^ 50)) (Fin 30) = Fin (8655355533852671 / 2 ^ 47)"
    by code_simp
  have "frames_of example_env
         (short_config\<lparr>durationInSeconds := JNum (parse_float ''2.05''), fps := JNum (Fin 30)\<rparr>)
       = Math_round (js_times (parse_float ''2.05'') (Fin 30))"
    by (simp add: frames_of_def to_number_def)
  also have "\<dots> = Fin 61"
    unfolding pf d t2 by (simp add: floor_eq_iff)
  finally have f2: "frames_of example_env
         (short_config\<lparr>durationInSeconds := JNum (parse_float ''2.05''), fps := JNum (Fin 30)\<rparr>)
       = Fin 61" .
  have s2: "spec_frames (205 / 100) 30 = Fin 62"
    by (simp add: spec_frames_def round_def floor_eq_iff)
  show ?thesis
    unfolding p r using a f s w e f2 s2 by blast
qed

text \<open>
  C9, amended. For every config with positive \<^verbatim>\<open>durationInSeconds\<close> and \<^verbatim>\<open>fps\<close> (numbers), the
  number of frames is \<^verbatim>\<open>Math.round\<close> of the double product: the product of the two doubles
  is rounded to the nearest double (a tie going to the even significand, \<^verbatim>\<open>Infinity\<close> from
  \<open>2\<^sup>1\<^sup>0\<^sup>2\<^sup>4\<close> on), and that double to the nearest integer (a tie going up). This value is what
  \<^verbatim>\<open>createTempProject\<close> writes into \<^verbatim>\<open>Root.tsx\<close> as \<^verbatim>\<open>durationInFrames\<close>, and what every
  call of the external renderer gets as \<^verbatim>\<open>durationInFrames\<close>. It equals
  \<open>round (durationInSeconds * fps)\<close> of the product itself whenever that product is farther
  from the half-integers than the rounding error of the multiplication, which is at most
  \<open>2\<^sup>-\<^sup>5\<^sup>3\<close> times the product (and \<open>2\<^sup>-\<^sup>1\<^sup>0\<^sup>7\<^sup>5\<close> for a subnormal product); and for every
  product below \<open>2\<^sup>1\<^sup>0\<^sup>2\<^sup>3\<close> it is a whole number, not negative, no farther from the
  product than a half plus that error.
\<close>

theorem frames_round_double_product:
  assumes "durationInSeconds cfg = JNum (Fin d)" and "fps cfg = JNum (Fin f)"
    and "0 < d" and "0 < f"
  shows "frames_of env cfg = Math_round (to_double (d * f))
         \<and> (max (d * f / 2 ^ 53) (2 powi (- 1075)) < \<bar>frac (d * f) - 1 / 2\<bar> \<longrightarrow>
               frames_of env cfg = spec_frames d f)
         \<and> (d * f < 2 ^ 1023 \<longrightarrow>
               (\<exists>n. frames_of env cfg = Fin (of_int n) \<and> 0 \<le> n
                  \<and> \<bar>of_int n - d * f\<bar> \<le> 1 / 2 + max (d * f / 2 ^ 53) (2 powi (- 1075))))
         \<and> (\<forall>p w dir w'. createTempProject env p cfg w = (Inr dir, w') \<longrightarrow>
               (\<exists>style. map_of (files w') (path_join [path_join [dir, ''src''], ''Root.tsx'']) =
                  Some \<lparr>file_content =
                          rootTsx env
                            (import_statement style ''UserComponent''
                               (map (\<lambda>c. if c = CHR 0x5C then CHR ''/'' else c) p))
                            ''UserComponent'' cfg (Math_round (to_double (d * f))),
                        mtimeMs = int (Date_now env)\<rparr>))
         \<and> (\<forall>dir p name out w. \<exists>new.
               trace (snd (render_steps env cfg dir p name out w)) = trace w @ new
               \<and> (\<forall>req. Called (RenderMedia req) \<in> set new \<longrightarrow>
                     durationInFrames req = Math_round (to_double (d * f))))"
proof -
  note f = frames_of_product [OF assms(1,2), of env]
  have q: "0 < d * f" using assms(3,4) by simp
  have 1: "frames_of env cfg = spec_frames d f"
    if "max (d * f / 2 ^ 53) (2 powi (- 1075)) < \<bar>frac (d * f) - 1 / 2\<bar>"
    unfolding f spec_frames_def using q that by (rule Math_round_to_double)
  have 2: "\<exists>n. frames_of env cfg = Fin (of_int n) \<and> 0 \<le> n
              \<and> \<bar>of_int n - d * f\<bar> \<le> 1 / 2 + max (d * f / 2 ^ 53) (2 powi (- 1075))"
    if "d * f < 2 ^ 1023"
    unfolding f using q that by (rule Math_round_error)
  have 3: "\<exists>style. map_of (files w') (path_join [path_join [dir, ''src''], ''Root.tsx'']) =
                  Some \<lparr>file_content =
                          rootTsx env
                            (import_statement style ''UserComponent''
                               (map (\<lambda>c. if c = CHR 0x5C then CHR ''/'' else c) p))
                            ''UserComponent'' cfg (Math_round (to_double (d * f))),
                        mtimeMs = int (Date_now env)\<rparr>"
    if "createTempProject env p cfg w = (Inr dir, w')" for p w dir w'
    using createTempProject_root_file [OF that] unfolding f .
  have 4: "\<exists>new. trace (snd (render_steps env cfg dir p name out w)) = trace w @ new
               \<and> (\<forall>req. Called (RenderMedia req) \<in> set new \<longrightarrow>
                     durationInFrames req = Math_round (to_double (d * f)))"
    for dir p name out w
  proof -
    obtain r w' where s: "render_steps env cfg dir p name out w = (r, w')"
      by (cases "render_steps env cfg dir p name out w")
    from emitsD [OF render_steps_emits s] obtain new where
      n: "trace w' = trace w @ new" "list_all (render_target out (frames_of env cfg)) new"
      by blast
    from n(2) have "\<forall>req. Called (RenderMedia req) \<in> set new \<longrightarrow>
        durationInFrames req = Math_round (to_double (d * f))"
      unfolding f by (auto simp: list_all_iff render_target_def)
    with s n(1) show ?thesis by auto
  qed
  from f 1 2 3 4 show ?thesis by blast
qed

theorem frames_round_double_product_witness:
  "to_double (2997 / 100) = Fin (1054475631502295 / 2 ^ 45)
   \<and> frames_of example_env ntsc_config = Fin 150
   \<and> map_of (files (snd (createTempProject example_env ''/srv/temp/job-1.tsx'' ntsc_config
                          (staged_world []))))
        ''/tmp/remotion-render-1700000000000/src/Root.tsx''
      = Some \<lparr>file_content =
                 rootTsx example_env ''import UserComponent from '/srv/temp/job-1.tsx';''
                   ''UserComponent'' ntsc_config (Fin 150),
               mtimeMs = 1700000000000\<rparr>
   \<and> trace (snd (render_steps example_env ntsc_config ''/tmp/remotion-render-1700000000000''
                    ''/srv/temp/job-1.tsx'' ''../clip.mov'' ''/srv/clip.mov''
                    (project_world example_env ntsc_config [])))
      = [Called (Bundle ''/tmp/remotion-render-1700000000000/src/index.ts'' ''/srv/node_modules''),
         Called (SelectComposition ''/tmp/bundle'' (JStr ''demo'')),
         Called (RenderMedia
                   \<lparr> composition = JObj [(''id'', JStr ''demo'')],
                     durationInFrames = Fin 150,
                     fps_arg = JNum (Fin (1054475631502295 / 2 ^ 45)),
                     width_arg = JNum (Fin 640),
                     height_arg = JNum (Fin 480),
                     serveUrl = ''/tmp/bundle'',
                     codec = ''h264'',
                     outputLocation = ''/srv/clip.mov'' \<rparr>)]"
proof -
  have a: "to_double (2997 / 100) = Fin (1054475631502295 / 2 ^ 45)"
    by code_simp
  have h: "durationInSeconds ntsc_config = JNum (Fin 5)"
    "fps ntsc_config = JNum (Fin (1054475631502295 / 2 ^ 45))"
    "(0::rat) < 5" "(0::rat) < 1054475631502295 / 2 ^ 45"
    by (simp_all add: ntsc_config_def)
  have fl: "\<lfloor>5 * (1054475631502295 / 2 ^ 45) :: rat\<rfloor> = 149"
    by (simp add: floor_eq_iff)
  have far: "max (5 * (1054475631502295 / 2 ^ 45) / 2 ^ 53) (2 powi (- 1075))
               < \<bar>frac (5 * (1054475631502295 / 2 ^ 45) :: rat) - 1 / 2\<bar>"
    unfolding frac_def fl by (simp add: power_int_minus_divide)
  have r: "spec_frames 5 (1054475631502295 / 2 ^ 45) = Fin 150"
    by (simp add: spec_frames_def round_def floor_eq_iff)
  from frames_round_double_product [OF h, of example_env] far
  have "frames_of example_env ntsc_config = spec_frames 5 (1054475631502295 / 2 ^ 45)"
    by blast
  then have f: "frames_of example_env ntsc_config = Fin 150"
    unfolding r .
  have i: "import_statement DefaultExport ''UserComponent'' ''/srv/temp/job-1.tsx''
             = ''import UserComponent from '/srv/temp/job-1.tsx';''"
    by (simp add: import_statement_def)
  have p: "snd (createTempProject example_env ''/srv/temp/job-1.tsx'' ntsc_config (staged_world []))
             = project_world example_env ntsc_config []"
    using run_project [of None ntsc_config "[]"] by (simp add: rm_env_None)
  have s: "snd (render_steps example_env ntsc_config ''/tmp/remotion-render-1700000000000''
                    ''/srv/temp/job-1.tsx'' ''../clip.mov'' ''/srv/clip.mov''
                    (project_world example_env ntsc_config []))
             = rendered_world example_env ntsc_config (render_events example_env ntsc_config)"
    using run_steps [of None ntsc_config "[]"] by (simp add: rm_env_None)
  have w: "map_of (files (project_world example_env ntsc_config []))
             ''/tmp/remotion-render-1700000000000/src/Root.tsx''
      = Some \<lparr>file_content =
                 rootTsx example_env ''import UserComponent from '/srv/temp/job-1.tsx';''
                   ''UserComponent'' ntsc_config (Fin 150),
               mtimeMs = 1700000000000\<rparr>"
    by (simp add: f i project_world_def project_files_def)
  have e: "trace (rendered_world example_env ntsc_config (render_events example_env ntsc_config))
      = [Called (Bundle ''/tmp/remotion-render-1700000000000/src/index.ts'' ''/srv/node_modules''),
         Called (SelectComposition ''/tmp/bundle'' (JStr ''demo'')),
         Called (RenderMedia
                   \<lparr> composition = JObj [(''id'', JStr ''demo'')],
                     durationInFrames = Fin 150,
                     fps_arg = JNum (Fin (1054475631502295 / 2 ^ 45)),
                     width_arg = JNum (Fin 640),
                     height_arg = JNum (Fin 480),
                     serveUrl = ''/tmp/bundle'',
                     codec = ''h264'',
                     outputLocation = ''/srv/clip.mov'' \<rparr>)]"
    by (simp add: f rendered_world_def render_events_def) (simp add: ntsc_config_def)
  show ?thesis
    unfolding p s using a f w e by blast
qed

lemma rootTsx_ntsc:
  "rootTsx example_env ''import UserComponent from '/srv/temp/job-1.tsx';''
     ''UserComponent'' ntsc_config (Fin 150) =
   ''import React from 'react';
import { Composition } from 'remotion';
import UserComponent from '/srv/temp/job-1.tsx';

export const Root: React.FC = () => {
  return (
    <Composition
      id='' @ [CHR 0x22] @ ''demo'' @ [CHR 0x22] @ ''
      component={UserComponent}
      durationInFrames={150}
      fps={29.97}
      width={640}
      height={480}
      defaultProps={{}}
    />
  );
};
''"
proof -
  have fl: "\<lfloor>1054475631502295 / 35184372088832 :: rat\<rfloor> = 29"
    by (simp add: floor_eq_iff)
  show ?thesis
    by (simp add: rootTsx_def ntsc_config_def js_to_string_def num_to_string_def js_or_def
        nat_digits.simps digit_of_def example_env_def fl)
qed

section \<open>The output path and the attachment file name\<close>

definition is_string :: "jsval \<Rightarrow> bool" where
  "is_string v = (case v of JStr s \<Rightarrow> True | _ \<Rightarrow> False)"

definition spec_output_name :: "env \<Rightarrow> jsval \<Rightarrow> string" where
  \<comment> \<open>the file name the client gave, as it is, when one is given; else the job id with
      \<^verbatim>\<open>.mp4\<close>\<close>
  "spec_output_name env fn =
     (case fn of
        JStr s \<Rightarrow> if s = [] then randomUUID env @ ''.mp4'' else s
      | _ \<Rightarrow> randomUUID env @ ''.mp4'')"

lemma outputFileName_eq:
  assumes "is_string fn \<or> \<not> truthy fn"
  shows "js_or fn (JStr (randomUUID env @ ''.mp4'')) = JStr (spec_output_name env fn)"
  using assms by (cases fn) (auto simp: js_or_def is_string_def spec_output_name_def)

text \<open>
  C10. For every render job (a request whose source text is admitted and whose
  \<^verbatim>\<open>filename\<close> is a string or is not given), the output path is the join of the outputs
  directory with the file name the client gave, taken as it is, or with the job id and
  \<^verbatim>\<open>.mp4\<close> when none is given: the job runs with that path, every call of the renderer
  writes to it, and a response with the video carries the same name in its
  \<^verbatim>\<open>Content-Disposition\<close> header. Nothing in this depends on the extension or on the path
  components of the name.
\<close>

theorem output_path_verbatim:
  assumes "get_prop req_body ''tsx'' = Inr (JStr tsx)" and "tsx \<noteq> []"
    and "length tsx \<le> MAX_TSX_SIZE"
    and "get_prop req_body ''filename'' = Inr fn"
    and "is_string fn \<or> \<not> truthy fn"
  shows "render_handler env req_body w =
           render_job env (randomUUID env) tsx
             (path_join [TEMP_DIR env, randomUUID env @ ''.tsx''])
             (spec_output_name env fn)
             (path_join [OUTPUT_DIR env, spec_output_name env fn]) w
         \<and> (\<exists>new. trace (snd (render_handler env req_body w)) = trace w @ new
               \<and> (\<forall>req. Called (RenderMedia req) \<in> set new \<longrightarrow>
                     outputLocation req = path_join [OUTPUT_DIR env, spec_output_name env fn]))
         \<and> (\<forall>r. fst (render_handler env req_body w) = Replied r \<longrightarrow> status r = 200 \<longrightarrow>
               headers r =
                 [(''Content-Type'', ''video/mp4''),
                  (''Content-Disposition'',
                   ''attachment; filename='' @ [CHR 0x22] @ spec_output_name env fn @ [CHR 0x22])])"
proof -
  let ?name = "spec_output_name env fn"
  let ?out = "path_join [OUTPUT_DIR env, ?name]"
  let ?p = "path_join [TEMP_DIR env, randomUUID env @ ''.tsx'']"
  have h: "render_handler env req_body w = render_job env (randomUUID env) tsx ?p ?name ?out w"
    by (rule handler_admits [OF assms(1-4) outputFileName_eq [OF assms(5)]])
  from render_job_trace [of env "randomUUID env" tsx ?p ?name ?out w] obtain new where
    n: "trace (snd (render_job env (randomUUID env) tsx ?p ?name ?out w)) = trace w @ new"
      "list_all (writes_to ?out) new"
    by blast
  from n(2) have t: "\<forall>req. Called (RenderMedia req) \<in> set new \<longrightarrow> outputLocation req = ?out"
    by (auto simp: list_all_iff writes_to_def)
  have r: "headers r =
             [(''Content-Type'', ''video/mp4''),
              (''Content-Disposition'', ''attachment; filename='' @ [CHR 0x22] @ ?name @ [CHR 0x22])]"
    if "fst (render_handler env req_body w) = Replied r" "status r = 200" for r
    using render_job_200 [of env "randomUUID env" tsx ?p ?name ?out w r] that
    unfolding h by (auto simp: video_reply_def)
  from h n(1) t r show ?thesis
    unfolding h by blast
qed

lemma to_double_48: "to_double 48 = Fin 48"
  by code_simp

theorem output_path_verbatim_witness:
  "render_handler example_env good_request start_world =
     (Replied \<lparr> status = 200,
                headers = [(''Content-Type'', ''video/mp4''),
                           (''Content-Disposition'',
                            ''attachment; filename='' @ [CHR 0x22] @ ''../clip.mov'' @ [CHR 0x22])],
                body = Video ''mp4-bytes'' \<rparr>,
      \<lparr> files = [(''/srv/clip.mov'', \<lparr>file_content = ''mp4-bytes'', mtimeMs = 1700000000000\<rparr>)],
        dirs = [''/srv/temp'', ''/srv/outputs''],
        trace =
          [Evaluated ''({ id: 'demo', fps: 24, width: 640, height: 480, durationInSeconds: 2 })'',
           Called EnsureBrowser,
           Called (Bundle ''/tmp/remotion-render-1700000000000/src/index.ts'' ''/srv/node_modules''),
           Called (SelectComposition ''/tmp/bundle'' (JStr ''demo'')),
           Called (RenderMedia
                     \<lparr> composition = JObj [(''id'', JStr ''demo'')],
                       durationInFrames = Fin 48,
                       fps_arg = JNum (Fin 24),
                       width_arg = JNum (Fin 640),
                       height_arg = JNum (Fin 480),
                       serveUrl = ''/tmp/bundle'',
                       codec = ''h264'',
                       outputLocation = ''/srv/clip.mov'' \<rparr>)] \<rparr>)"
proof -
  have a: "get_prop good_request ''tsx'' = Inr (JStr good_tsx)"
    "get_prop good_request ''filename'' = Inr (JStr ''../clip.mov'')"
    "is_string (JStr ''../clip.mov'') \<or> \<not> truthy (JStr ''../clip.mov'')"
    "length good_tsx \<le> MAX_TSX_SIZE"
    using good_tsx_size(2) by (simp_all add: good_request_def is_string_def)
  have n: "spec_output_name example_env (JStr ''../clip.mov'') = ''../clip.mov''"
    by (simp add: spec_output_name_def)
  have f: "frames_of example_env demo_config = Fin 48"
    by (simp add: frames_of_def to_number_def demo_config_def to_double_48 floor_eq_iff)
  have c: "cleanupTempProject example_env ''/tmp/remotion-render-1700000000000''
             (rendered_world example_env demo_config t)
           = \<lparr> files = [(''/srv/clip.mov'',
                        \<lparr>file_content = ''mp4-bytes'', mtimeMs = 1700000000000\<rparr>)],
               dirs = [''/srv/temp'', ''/srv/outputs''],
               trace = t \<rparr>" for t
    by (simp add: cleanupTempProject_def existsSync_def rmSync_def rendered_world_def
        project_files_def inside_def example_env_def)
  have j: "render_job example_env ''job-1'' good_tsx ''/srv/temp/job-1.tsx'' ''../clip.mov''
             ''/srv/clip.mov'' start_world
           = (Replied (video_reply ''../clip.mov'' ''mp4-bytes''),
              \<lparr> files = [(''/srv/clip.mov'',
                          \<lparr>file_content = ''mp4-bytes'', mtimeMs = 1700000000000\<rparr>)],
                dirs = [''/srv/temp'', ''/srv/outputs''],
                trace =
                  Evaluated ''({ id: 'demo', fps: 24, width: 640, height: 480, durationInSeconds: 2 })''
                  # Called EnsureBrowser # render_events example_env demo_config \<rparr>)"
    using run_try [of None] by (simp add: render_job_def rm_env_None c)
  from output_path_verbatim [OF a(1) good_tsx_size(1) a(4) a(2) a(3), of example_env start_world]
  have "render_handler example_env good_request start_world =
     render_job example_env ''job-1'' good_tsx ''/srv/temp/job-1.tsx'' ''../clip.mov''
       ''/srv/clip.mov'' start_world"
    using job_paths(1,2,6) [of None] job_paths(3-5)
    by (simp add: n rm_env_None) (simp add: example_env_def)
  then show ?thesis
    unfolding j by (simp add: video_reply_def render_events_def f) (simp add: demo_config_def)
qed

end
